theory Spec2Isabelle
  imports Main "HOL-Library.Sublist" "HOL-Library.Char_ord" "HOL-Library.List_Lexorder"
    "HOL-Library.Product_Lexorder"
begin

section \<open>SIRIUS: dependency resolution and build staleness\<close>

text \<open>
  A shallow embedding of the resolver functions of \<^verbatim>\<open>sirius.js.old\<close> and of the
  helpers of \<^verbatim>\<open>sirius_modules/file_management_utils.js\<close> they call. JavaScript
  strings are \<open>string\<close> (code units below 256), arrays are lists, a value that may be
  \<^verbatim>\<open>undefined\<close> is an \<open>option\<close>, and a thrown exception is the \<open>Inl\<close> of a sum or
  the \<open>Throw\<close> of an outcome.
\<close>

subsection \<open>Exceptions and strings\<close>

datatype error = TypeError | SyntaxError | SystemError

text \<open>\<^verbatim>\<open>s.split(c)\<close> for a one-character separator: never empty, \<^verbatim>\<open>"".split(".")\<close> is \<^verbatim>\<open>[""]\<close>.\<close>

fun split_on :: "char \<Rightarrow> string \<Rightarrow> string list" where
  "split_on c [] = [[]]"
| "split_on c (x # xs) =
     (if x = c then [] # split_on c xs
      else (case split_on c xs of [] \<Rightarrow> [[x]] | y # ys \<Rightarrow> (x # y) # ys))"

text \<open>\<^verbatim>\<open>xs.join(sep)\<close>.\<close>

fun join_with :: "string \<Rightarrow> string list \<Rightarrow> string" where
  "join_with sep [] = []"
| "join_with sep [x] = x"
| "join_with sep (x # y # ys) = x @ sep @ join_with sep (y # ys)"

text \<open>\<^verbatim>\<open>s.replace(a, b)\<close> with one-character strings: the first occurrence only.\<close>

fun replace_first :: "char \<Rightarrow> char \<Rightarrow> string \<Rightarrow> string" where
  "replace_first a b [] = []"
| "replace_first a b (x # xs) = (if x = a then b # xs else x # replace_first a b xs)"

subsection \<open>The inclusion index\<close>

text \<open>
  An inclusion entry as \<^verbatim>\<open>getInclusionsMap\<close> builds it. An entry made from a compiled
  archive has no \<^verbatim>\<open>globalSwcClasses\<close> property, so reading it gives \<^verbatim>\<open>undefined\<close>.
\<close>

record inclusionEntry =
  swcPath :: string
  swcClasses :: "string list option"
  globalSwcClasses :: "string list option"

datatype searchField = SwcClassesField | GlobalSwcClassesField

fun fieldOf :: "searchField \<Rightarrow> inclusionEntry \<Rightarrow> string list option" where
  "fieldOf SwcClassesField r = swcClasses r"
| "fieldOf GlobalSwcClassesField r = globalSwcClasses r"

text \<open>What the code hands to \<^verbatim>\<open>$print\<close>.\<close>

datatype message =
    CollisionWarning string "string list"
  | ReusedCacheInfo string
  | CorruptCacheWarning string
  | GlobalClassesWarning string "string list"
  | WroteCacheInfo string
  | SeveralSrcWarning string "string list"
  | DeletingBinaryInfo string
  | DeletingCacheInfo string

subsection \<open>getMatchingSWCs\<close>

definition havePartialFqn :: "string \<Rightarrow> bool" where
  "havePartialFqn fqn = (fqn \<noteq> [] \<and> last fqn = CHR ''*'')"

definition partialFqn :: "string \<Rightarrow> string" where
  "partialFqn fqn = join_with ''.'' (butlast (split_on CHR ''.'' fqn))"

text \<open>
  The callback of \<^verbatim>\<open>inclusions.filter\<close>. \<^verbatim>\<open>testFQN.indexOf(partialFqn) === 0\<close> is
  \<open>prefix\<close> on the characters. In the wildcard branch the field is used unguarded, so
  a missing field raises; in the exact branch it is guarded by \<^verbatim>\<open>&&\<close>.
\<close>

definition recordMatches :: "searchField \<Rightarrow> string \<Rightarrow> inclusionEntry \<Rightarrow> error + bool" where
  "recordMatches field fqn r =
     (if havePartialFqn fqn then
        (case fieldOf field r of
           None \<Rightarrow> Inl TypeError
         | Some testFQNs \<Rightarrow>
             Inr (0 < length (filter (\<lambda>testFQN. prefix (partialFqn fqn) testFQN) testFQNs)))
      else
        (case fieldOf field r of
           None \<Rightarrow> Inr False
         | Some cs \<Rightarrow> Inr (fqn \<in> set cs)))"

fun filterE :: "('a \<Rightarrow> error + bool) \<Rightarrow> 'a list \<Rightarrow> error + 'a list" where
  "filterE p [] = Inr []"
| "filterE p (x # xs) =
     (case p x of
        Inl e \<Rightarrow> Inl e
      | Inr b \<Rightarrow>
          (case filterE p xs of
             Inl e \<Rightarrow> Inl e
           | Inr ys \<Rightarrow> Inr (if b then x # ys else ys)))"

text \<open>\<^verbatim>\<open>matchingSWCs.forEach\<close>: push a non-empty path that is not yet in \<^verbatim>\<open>swcPaths\<close>.\<close>

fun pushMatches :: "string list \<Rightarrow> string list \<Rightarrow> string list" where
  "pushMatches swcPaths [] = swcPaths"
| "pushMatches swcPaths (m # ms) =
     pushMatches (if m \<noteq> [] \<and> m \<notin> set swcPaths then swcPaths @ [m] else swcPaths) ms"

text \<open>
  One round of \<^verbatim>\<open>classFQNs.forEach\<close>: the paths this class contributes (after the
  truncation \<^verbatim>\<open>matchingSWCs.length = 1\<close>) and the messages it hands to \<^verbatim>\<open>$print\<close>.
\<close>

definition matchingSWCsOf ::
  "searchField \<Rightarrow> inclusionEntry list \<Rightarrow> string \<Rightarrow> error + string list" where
  "matchingSWCsOf field inclusions fqn =
     (case filterE (recordMatches field fqn) inclusions of
        Inl e \<Rightarrow> Inl e
      | Inr rs \<Rightarrow> Inr (map swcPath rs))"

definition afterCollision :: "string \<Rightarrow> string list \<Rightarrow> string list \<times> message list" where
  "afterCollision fqn matchingSWCs =
     (if \<not> havePartialFqn fqn \<and> 1 < length matchingSWCs
      then (take 1 matchingSWCs, [CollisionWarning fqn matchingSWCs])
      else (matchingSWCs, []))"

fun resolveEach ::
  "searchField \<Rightarrow> inclusionEntry list \<Rightarrow> string list \<Rightarrow> string list \<times> message list
     \<Rightarrow> error + (string list \<times> message list)" where
  "resolveEach field inclusions [] acc = Inr acc"
| "resolveEach field inclusions (fqn # fqns) (swcPaths, printed) =
     (case matchingSWCsOf field inclusions fqn of
        Inl e \<Rightarrow> Inl e
      | Inr matchingSWCs \<Rightarrow>
          (case afterCollision fqn matchingSWCs of
             (kept, msgs) \<Rightarrow>
               resolveEach field inclusions fqns (pushMatches swcPaths kept, printed @ msgs)))"

text \<open>
  \<^verbatim>\<open>getMatchingSWCs(inclusions, classFQNs, searchField)\<close>: the sorted, reversed paths
  and the messages handed to \<^verbatim>\<open>$print\<close>. The default \<^verbatim>\<open>sort()\<close> orders strings by
  their code units, which is the lexicographic order on \<open>string\<close>.
\<close>

definition getMatchingSWCs ::
  "inclusionEntry list \<Rightarrow> string list \<Rightarrow> searchField \<Rightarrow> error + (string list \<times> message list)" where
  "getMatchingSWCs inclusions classFQNs field =
     (if inclusions = [] then Inr ([], [])
      else if classFQNs = [] then Inr ([], [])
      else
        (case resolveEach field inclusions classFQNs ([], []) of
           Inl e \<Rightarrow> Inl e
         | Inr (swcPaths, printed) \<Rightarrow> Inr (rev (sort swcPaths), printed)))"


subsection \<open>The platform: what Node.js provides\<close>

text \<open>
  The functions of Node's \<^verbatim>\<open>path\<close>, \<^verbatim>\<open>fs\<close>, \<^verbatim>\<open>process\<close>, \<^verbatim>\<open>JSON\<close>, \<^verbatim>\<open>RegExp\<close> and
  of \<^verbatim>\<open>shelljs\<close> are parameters of the model. The file system is a state of an
  arbitrary type \<open>'s\<close>. A primitive that may throw returns an \<open>option\<close>, \<open>None\<close> for
  the exception.
\<close>

record pathApi =
  pathSep :: char
  pathResolve :: "string list \<Rightarrow> string"
  pathJoin :: "string list \<Rightarrow> string"
  pathDirname :: "string \<Rightarrow> string"
  pathBasename :: "string \<Rightarrow> string"
  pathBasenameExt :: "string \<Rightarrow> string \<Rightarrow> string"
  pathExtname :: "string \<Rightarrow> string"
  pathRelative :: "string \<Rightarrow> string \<Rightarrow> string"

record execResult =
  code :: int
  stdout :: string

record 's fsApi =
  existsSync :: "'s \<Rightarrow> string \<Rightarrow> bool"
  statIsDirectory :: "'s \<Rightarrow> string \<Rightarrow> bool option"
  lstatIsDirectory :: "'s \<Rightarrow> string \<Rightarrow> bool option"
  statMtime :: "'s \<Rightarrow> string \<Rightarrow> int option"
  readdirSync :: "'s \<Rightarrow> string \<Rightarrow> string list option"
  readFileSync :: "'s \<Rightarrow> string \<Rightarrow> string option"
  readHeaderBytes :: "'s \<Rightarrow> string \<Rightarrow> nat \<Rightarrow> string option"
  realpathSync :: "'s \<Rightarrow> string \<Rightarrow> string option"
  writeFileSync :: "'s \<Rightarrow> string \<Rightarrow> string \<Rightarrow> 's option"
  unlinkSync :: "'s \<Rightarrow> string \<Rightarrow> 's option"
  rmdirSyncRecursive :: "'s \<Rightarrow> string \<Rightarrow> 's option"
  shellExecTar :: "'s \<Rightarrow> string \<Rightarrow> execResult"

text \<open>
  \<open>shellExecTar s swcPath\<close> is the result of \<^verbatim>\<open>shell.exec\<close> on the command
  \<^verbatim>\<open>tar -xOf <swcPath> catalog.xml\<close>. \<open>regexTest src text\<close> is
  \<^verbatim>\<open>new RegExp(src).test(text)\<close>. The three scanners are the regular-expression
  engine on the constants \<^verbatim>\<open>importClassFqnPattern\<close>, \<^verbatim>\<open>inlineClassFqnPattern\<close> (all
  matches, \<open>[]\<close> for \<^verbatim>\<open>null\<close>) and \<^verbatim>\<open>xmlnsImportClassPattern\<close> (group 1 of each
  successive \<^verbatim>\<open>exec\<close>). \<open>jsonParse\<close> is \<^verbatim>\<open>JSON.parse\<close> on a cache whose value is an
  index, \<open>None\<close> when it throws.
\<close>

record sysApi =
  platformWin32 :: bool
  processCwd :: string
  siriusDirname :: string
  toLowerCase :: "string \<Rightarrow> string"
  regexTest :: "string \<Rightarrow> string \<Rightarrow> bool"
  matchImportClassFqn :: "string \<Rightarrow> string list"
  matchInlineClassFqn :: "string \<Rightarrow> string list"
  execXmlnsImportClass :: "string \<Rightarrow> string list"
  jsonParse :: "string \<Rightarrow> inclusionEntry list option"
  jsonStringify :: "inclusionEntry list \<Rightarrow> string"

text \<open>
  The environment of a run: the platform, and the global \<^verbatim>\<open>currentProjectFolder\<close>,
  which the script sets once from the command line before it calls anything.
\<close>

record 's env =
  path :: pathApi
  fs :: "'s fsApi"
  sys :: sysApi
  currentProjectFolder :: string

subsection \<open>Outcomes, the world, and sequencing\<close>

text \<open>
  A call returns, throws, or runs out of the fuel that bounds the recursion of the
  model. The world is the file system together with what was done to it: the messages
  handed to \<^verbatim>\<open>$print\<close> and the calls of \<^verbatim>\<open>deletePathNode\<close> and
  \<^verbatim>\<open>fs.writeFileSync\<close>, tagged with the place of the call.
\<close>

datatype 'a outcome = Return 'a | Throw error | NoFuel

datatype event =
    Print message
  | DeleteBinary string
  | DeleteIndexCache string
  | WriteIndexCache string

record 's world =
  fsState :: 's
  events :: "event list"

type_synonym ('s, 'a) prog = "'s world \<Rightarrow> 'a outcome \<times> 's world"

definition returnW :: "'a \<Rightarrow> ('s, 'a) prog" where
  "returnW x = (\<lambda>w. (Return x, w))"

definition throwW :: "error \<Rightarrow> ('s, 'a) prog" where
  "throwW e = (\<lambda>w. (Throw e, w))"

definition bindW :: "('s, 'a) prog \<Rightarrow> ('a \<Rightarrow> ('s, 'b) prog) \<Rightarrow> ('s, 'b) prog" where
  "bindW m f = (\<lambda>w. case m w of
                   (Return x, w') \<Rightarrow> f x w'
                 | (Throw e, w') \<Rightarrow> (Throw e, w')
                 | (NoFuel, w') \<Rightarrow> (NoFuel, w'))"

definition emit :: "event \<Rightarrow> ('s, unit) prog" where
  "emit ev = (\<lambda>w. (Return (), w\<lparr>events := events w @ [ev]\<rparr>))"

definition printIf :: "bool \<Rightarrow> message \<Rightarrow> ('s, unit) prog" where
  "printIf cond m = (if cond then emit (Print m) else returnW ())"

fun emitAll :: "event list \<Rightarrow> ('s, unit) prog" where
  "emitAll [] = returnW ()"
| "emitAll (ev # evs) = bindW (emit ev) (\<lambda>_. emitAll evs)"

definition readW :: "('s \<Rightarrow> 'a outcome) \<Rightarrow> ('s, 'a) prog" where
  "readW f = (\<lambda>w. (f (fsState w), w))"

definition orThrow :: "'a option \<Rightarrow> 'a outcome" where
  "orThrow v = (case v of None \<Rightarrow> Throw SystemError | Some x \<Rightarrow> Return x)"

text \<open>Calling a method on a value that may be \<^verbatim>\<open>undefined\<close>.\<close>

definition defined :: "'a option outcome \<Rightarrow> 'a outcome" where
  "defined r = (case r of
                  Return None \<Rightarrow> Throw TypeError
                | Return (Some x) \<Rightarrow> Return x
                | Throw e \<Rightarrow> Throw e
                | NoFuel \<Rightarrow> NoFuel)"

subsection \<open>More strings\<close>

definition isSpace :: "char \<Rightarrow> bool" where
  "isSpace c = (c \<in> {CHR 0x09, CHR 0x0A, CHR 0x0B, CHR 0x0C, CHR 0x0D, CHR 0x20, CHR 0xA0})"

definition jsTrim :: "string \<Rightarrow> string" where
  "jsTrim s = rev (dropWhile isSpace (rev (dropWhile isSpace s)))"

text \<open>\<^verbatim>\<open>s.indexOf(sub) !== -1\<close>.\<close>

fun containsStr :: "string \<Rightarrow> string \<Rightarrow> bool" where
  "containsStr sub [] = (sub = [])"
| "containsStr sub (c # cs) = (prefix sub (c # cs) \<or> containsStr sub cs)"

text \<open>\<^verbatim>\<open>s.replace(/pat/g, rep)\<close> for a literal, non-empty \<open>pat\<close>.\<close>

fun replaceAllStr :: "string \<Rightarrow> string \<Rightarrow> string \<Rightarrow> string" where
  "replaceAllStr pat rep [] = []"
| "replaceAllStr pat rep (c # cs) =
     (if pat \<noteq> [] \<and> prefix pat (c # cs)
      then rep @ replaceAllStr pat rep (drop (length pat - 1) cs)
      else c # replaceAllStr pat rep cs)"

definition isAlnum :: "char \<Rightarrow> bool" where
  "isAlnum c = ((CHR ''a'' \<le> c \<and> c \<le> CHR ''z'') \<or> (CHR ''A'' \<le> c \<and> c \<le> CHR ''Z'')
                 \<or> (CHR ''0'' \<le> c \<and> c \<le> CHR ''9''))"

text \<open>\<^verbatim>\<open>s.replace(/[\W_]+/g, '-')\<close>: every run of non-alphanumeric characters becomes one dash.\<close>

fun collapseRuns :: "bool \<Rightarrow> string \<Rightarrow> string" where
  "collapseRuns inRun [] = []"
| "collapseRuns inRun (c # cs) =
     (if isAlnum c then c # collapseRuns False cs
      else if inRun then collapseRuns True cs
      else CHR ''-'' # collapseRuns True cs)"


definition bindO :: "'a outcome \<Rightarrow> ('a \<Rightarrow> 'b outcome) \<Rightarrow> 'b outcome" where
  "bindO r f = (case r of Return x \<Rightarrow> f x | Throw e \<Rightarrow> Throw e | NoFuel \<Rightarrow> NoFuel)"

subsection \<open>file\_management\_utils.js\<close>

definition isDirectory :: "'s env \<Rightarrow> 's \<Rightarrow> string \<Rightarrow> bool" where
  "isDirectory E s filePath =
     (case lstatIsDirectory (fs E) s filePath of Some b \<Rightarrow> b | None \<Rightarrow> False)"

definition makeRelative :: "'s env \<Rightarrow> string \<Rightarrow> string \<Rightarrow> string" where
  "makeRelative E subPath folder =
     join_with ''/'' (split_on (pathSep (path E)) (pathRelative (path E) folder subPath))"

definition cutOffExtension :: "'s env \<Rightarrow> string \<Rightarrow> string" where
  "cutOffExtension E filePath =
     pathDirname (path E) filePath @ ''/''
       @ pathBasenameExt (path E) filePath (pathExtname (path E) filePath)"

text \<open>\<^verbatim>\<open>deletePathNode\<close> swallows what the removal throws.\<close>

definition deletePathNode :: "'s env \<Rightarrow> string \<Rightarrow> 's \<Rightarrow> 's" where
  "deletePathNode E p s =
     (if existsSync (fs E) s p then
        (case lstatIsDirectory (fs E) s p of
           None \<Rightarrow> s
         | Some True \<Rightarrow> (case rmdirSyncRecursive (fs E) s p of None \<Rightarrow> s | Some s' \<Rightarrow> s')
         | Some False \<Rightarrow> (case unlinkSync (fs E) s p of None \<Rightarrow> s | Some s' \<Rightarrow> s'))
      else s)"

definition pathsAreEqual :: "'s env \<Rightarrow> 's \<Rightarrow> string \<Rightarrow> string \<Rightarrow> bool" where
  "pathsAreEqual E s path1 path2 =
     (case realpathSync (fs E) s (pathResolve (path E) [path1]) of
        None \<Rightarrow> False
      | Some p1 \<Rightarrow>
          (case realpathSync (fs E) s (pathResolve (path E) [path2]) of
             None \<Rightarrow> False
           | Some p2 \<Rightarrow>
               if platformWin32 (sys E)
               then toLowerCase (sys E) p1 = toLowerCase (sys E) p2
               else p1 = p2))"

definition readFileHeader :: "'s env \<Rightarrow> 's \<Rightarrow> string \<Rightarrow> nat \<Rightarrow> string" where
  "readFileHeader E s filePath headerSize =
     (case readHeaderBytes (fs E) s filePath headerSize of None \<Rightarrow> [] | Some h \<Rightarrow> h)"

text \<open>
  \<^verbatim>\<open>walkSync\<close> inside \<^verbatim>\<open>listFiles\<close>: every entry is pushed before the walk descends
  into it. The fuel bounds the depth of the descent.
\<close>

fun walkSync :: "'s env \<Rightarrow> 's \<Rightarrow> nat \<Rightarrow> string \<Rightarrow> string list outcome"
  and walkEntries :: "'s env \<Rightarrow> 's \<Rightarrow> nat \<Rightarrow> string \<Rightarrow> string list \<Rightarrow> string list outcome" where
  "walkSync E s 0 currentDir = NoFuel"
| "walkSync E s (Suc n) currentDir =
     (case readdirSync (fs E) s currentDir of
        None \<Rightarrow> Throw SystemError
      | Some filesInDir \<Rightarrow> walkEntries E s n currentDir filesInDir)"
| "walkEntries E s n currentDir [] = Return []"
| "walkEntries E s n currentDir (file # rest) =
     (let filePath = pathJoin (path E) [currentDir, file] in
      case statIsDirectory (fs E) s filePath of
        None \<Rightarrow> Throw SystemError
      | Some isDir \<Rightarrow>
          bindO (if isDir then walkSync E s n filePath else Return [])
            (\<lambda>below. bindO (walkEntries E s n currentDir rest)
               (\<lambda>after. Return (filePath # below @ after))))"

definition regExpEscape :: "string \<Rightarrow> string" where
  "regExpEscape s =
     concat (map (\<lambda>c. if c \<in> set (''|{}()[]^$+*?.'' @ [CHR 0x5C]) then [CHR 0x5C, c] else [c]) s)"

definition wildcardToRegex :: "string \<Rightarrow> string" where
  "wildcardToRegex s0 =
     (let s1 = replaceAllStr ''*'' ''___ANYCHARS___'' s0;
          s2 = replaceAllStr ''?'' ''___ANYCHAR___'' s1;
          s3 = regExpEscape s2;
          s4 = replaceAllStr ''___ANYCHARS___'' ''.*'' s3;
          s5 = replaceAllStr ''___ANYCHAR___'' ''.'' s4
      in ''^'' @ s5 @ ''$'')"

definition searchWithWildcards :: "'s env \<Rightarrow> string \<Rightarrow> string \<Rightarrow> bool" where
  "searchWithWildcards E text pattern = regexTest (sys E) (wildcardToRegex pattern) text"

definition startsWithDot :: "'s env \<Rightarrow> string \<Rightarrow> bool" where
  "startsWithDot E absolutePath =
     (case pathBasename (path E) absolutePath of [] \<Rightarrow> False | c # _ \<Rightarrow> c = CHR ''.'')"

definition EXCLUSIONS :: "string list" where
  "EXCLUSIONS = [''FOLDERS_ONLY'', ''FILES_ONLY'', ''NO_DOT_NAMES'']"

definition getSearchPatterns :: "string list \<Rightarrow> string list" where
  "getSearchPatterns filters = filter (\<lambda>item. item \<notin> set EXCLUSIONS) filters"

definition filterPaths :: "'s env \<Rightarrow> 's \<Rightarrow> string list \<Rightarrow> string \<Rightarrow> bool" where
  "filterPaths E s filters filePath =
     (let mustExcludeFiles = (''FOLDERS_ONLY'' \<in> set filters);
          mustExcludeFolders = (''FILES_ONLY'' \<in> set filters);
          mustExludeDotNames = (''NO_DOT_NAMES'' \<in> set filters);
          isDir = isDirectory E s filePath
      in if isDir \<and> mustExcludeFolders then False
         else if \<not> isDir \<and> mustExcludeFiles then False
         else if startsWithDot E filePath \<and> mustExludeDotNames then False
         else (let patterns = getSearchPatterns filters
               in if patterns \<noteq> []
                  then list_ex (\<lambda>pattern. searchWithWildcards E filePath pattern) patterns
                  else True))"

definition refinePaths :: "'s env \<Rightarrow> string \<Rightarrow> bool \<Rightarrow> bool \<Rightarrow> string \<Rightarrow> string" where
  "refinePaths E folder useRelativePaths dropExtension filePath =
     (let p1 = (if useRelativePaths then makeRelative E filePath folder else filePath)
      in if dropExtension then cutOffExtension E p1 else p1)"

text \<open>
  The \<^verbatim>\<open>try\<close> block of \<^verbatim>\<open>listFiles\<close>. \<^verbatim>\<open>allPaths\<close> is declared \<^verbatim>\<open>const\<close>, so each of
  the two assignments \<^verbatim>\<open>allPaths = allPaths.filter(...)\<close> and
  \<^verbatim>\<open>allPaths = allPaths.map(...)\<close> throws a TypeError once its right-hand side has
  been computed.
\<close>

definition listFilesTry ::
  "'s env \<Rightarrow> nat \<Rightarrow> 's \<Rightarrow> string \<Rightarrow> string list \<Rightarrow> bool \<Rightarrow> bool \<Rightarrow> string list outcome" where
  "listFilesTry E fuel s folder filters useRelativePaths dropExtension =
     bindO (walkSync E s fuel folder)
       (\<lambda>allPaths.
          if filters \<noteq> [] then
            (let filtered = filter (filterPaths E s filters) allPaths in Throw TypeError)
          else if useRelativePaths \<or> dropExtension then
            (let refined = map (refinePaths E folder useRelativePaths dropExtension) allPaths
             in Throw TypeError)
          else Return allPaths)"

text \<open>
  \<^verbatim>\<open>listFiles(folder, filters, useRelativePaths, dropExtension)\<close>. An invalid folder
  returns the empty array. Otherwise the \<^verbatim>\<open>try\<close> block runs, its exception is caught
  and logged, and the function ends without a \<^verbatim>\<open>return\<close> statement: the caller
  receives \<^verbatim>\<open>undefined\<close>, here \<open>None\<close>.
\<close>

definition listFiles ::
  "'s env \<Rightarrow> nat \<Rightarrow> 's \<Rightarrow> string \<Rightarrow> string list \<Rightarrow> bool \<Rightarrow> bool \<Rightarrow> string list option outcome" where
  "listFiles E fuel s folder filters useRelativePaths dropExtension =
     (if \<not> existsSync (fs E) s folder then Return (Some [])
      else
        (case statIsDirectory (fs E) s folder of
           None \<Rightarrow> Throw SystemError
         | Some False \<Rightarrow> Return (Some [])
         | Some True \<Rightarrow>
             (case listFilesTry E fuel s folder filters useRelativePaths dropExtension of
                NoFuel \<Rightarrow> NoFuel
              | Throw e \<Rightarrow> Return None
              | Return allPaths \<Rightarrow> Return None)))"

text \<open>
  The callers in \<^verbatim>\<open>sirius.js.old\<close> reach \<^verbatim>\<open>listFiles\<close> through the binding that
  \<^verbatim>\<open>require\<close> gives them; in the model they take it as the argument \<open>lf\<close>, so that
  what is proved about them holds for \<open>listFiles\<close> above and for any other listing.
\<close>

type_synonym 's lister =
  "'s \<Rightarrow> string \<Rightarrow> string list \<Rightarrow> bool \<Rightarrow> bool \<Rightarrow> string list option outcome"

definition listFolders :: "'s lister \<Rightarrow> 's \<Rightarrow> string \<Rightarrow> string list option outcome" where
  "listFolders lf s parentFolder = lf s parentFolder [''FOLDERS_ONLY''] False False"


subsection \<open>sirius.js.old: constants and small helpers\<close>

definition sourceFileTypes :: "string list" where "sourceFileTypes = [''as'', ''mxml'', ''fxg'']"
definition mxmlFileType :: "string list" where "mxmlFileType = [''mxml'']"
definition swcFileType :: "string list" where "swcFileType = [''swc'']"
definition swfFileType :: "string list" where "swfFileType = [''swf'']"
definition allFilesType :: "string list" where "allFilesType = [''*.*'']"
definition allFoldersType :: "string list" where "allFoldersType = [''**'']"
definition sourceFolderPath :: string where "sourceFolderPath = ''src''"
definition binFolderPath :: string where "binFolderPath = ''bin''"
definition libFolderPath :: string where "libFolderPath = ''lib''"
definition inclusionsFileName :: string where "inclusionsFileName = ''sirius.inclusions.cache''"
definition mxmlHeaderSize :: nat where "mxmlHeaderSize = 180"
definition mxApplicationTag :: string where "mxApplicationTag = ''<mx:WindowedApplication''"
definition sApplicationTag :: string where "sApplicationTag = ''<s:WindowedApplication''"
definition unitTestingAppPrefix :: string where "unitTestingAppPrefix = ''FlexUnit''"
definition unitTestingClassPrefix :: string where "unitTestingClassPrefix = ''flexUnitTests''"

definition toBinaryFileName :: "'s env \<Rightarrow> string \<Rightarrow> string" where
  "toBinaryFileName E rawName = collapseRuns False (toLowerCase (sys E) (jsTrim rawName))"

text \<open>The loop of \<^verbatim>\<open>getProjectApplications\<close> over the MXML files: path and modification time.\<close>

fun collectApplications :: "'s env \<Rightarrow> 's \<Rightarrow> string list \<Rightarrow> (string \<times> int) list outcome" where
  "collectApplications E s [] = Return []"
| "collectApplications E s (mxmlFile # rest) =
     (let mxmlHeader = readFileHeader E s mxmlFile mxmlHeaderSize in
      if containsStr mxApplicationTag mxmlHeader \<or> containsStr sApplicationTag mxmlHeader then
        bindO (orThrow (statMtime (fs E) s mxmlFile))
          (\<lambda>fileModifiedTime. bindO (collectApplications E s rest)
             (\<lambda>apps. Return ((mxmlFile, fileModifiedTime) # apps)))
      else collectApplications E s rest)"

definition getProjectApplications :: "'s lister \<Rightarrow> 's env \<Rightarrow> 's \<Rightarrow> string \<Rightarrow> string list outcome" where
  "getProjectApplications lf E s sourceFolder =
     (if existsSync (fs E) s sourceFolder then
        bindO (defined (lf s sourceFolder mxmlFileType False False))
          (\<lambda>listed.
             let mxmlFiles = filter
                   (\<lambda>mxmlFile. \<not> containsStr unitTestingAppPrefix
                      (pathBasenameExt (path E) mxmlFile (pathExtname (path E) mxmlFile))) listed
             in bindO (collectApplications E s mxmlFiles)
                  (\<lambda>projectApplications.
                     Return (map fst (sort_key (\<lambda>app. - snd app) projectApplications))))
      else Return [])"

text \<open>\<^verbatim>\<open>if (fqns.indexOf(fqn) === -1) fqns.push(fqn)\<close> over a list of candidates.\<close>

fun pushNew :: "string list \<Rightarrow> string list \<Rightarrow> string list" where
  "pushNew fqns [] = fqns"
| "pushNew fqns (fqn # others) = pushNew (if fqn \<in> set fqns then fqns else fqns @ [fqn]) others"

definition scanFile :: "'s env \<Rightarrow> string \<Rightarrow> string \<Rightarrow> string list \<Rightarrow> string list" where
  "scanFile E filePath fileContent fqns =
     (let fqns1 = pushNew fqns
            (map (\<lambda>rawFqn. last (split_on CHR '' '' rawFqn)) (matchImportClassFqn (sys E) fileContent));
          fqns2 = pushNew fqns1
            (map (replace_first CHR '':'' CHR ''.'') (matchInlineClassFqn (sys E) fileContent));
          fileExtension = last (split_on CHR ''.'' (pathExtname (path E) filePath))
      in if fileExtension = hd mxmlFileType
         then pushNew fqns2
                (filter (\<lambda>m. m \<noteq> [] \<and> jsTrim m \<noteq> []) (execXmlnsImportClass (sys E) fileContent))
         else fqns2)"

fun scanFiles :: "'s env \<Rightarrow> 's \<Rightarrow> string list \<Rightarrow> string list \<Rightarrow> string list outcome" where
  "scanFiles E s [] fqns = Return fqns"
| "scanFiles E s (filePath # rest) fqns =
     bindO (orThrow (readFileSync (fs E) s filePath))
       (\<lambda>fileContent. scanFiles E s rest (scanFile E filePath fileContent fqns))"

definition listClassImports :: "'s lister \<Rightarrow> 's env \<Rightarrow> 's \<Rightarrow> string \<Rightarrow> string list outcome" where
  "listClassImports lf E s folder =
     bindO (defined (lf s folder sourceFileTypes False False))
       (\<lambda>sourceFilesInFolder. bindO (scanFiles E s sourceFilesInFolder [])
          (\<lambda>fqns. Return (sort fqns)))"

definition classCount :: "string list option \<Rightarrow> nat" where
  "classCount cs = (case cs of None \<Rightarrow> 0 | Some xs \<Rightarrow> length xs)"

text \<open>
  \<^verbatim>\<open>consolidateInclusions\<close>: push an entry that has classes, then sort by the two class
  counts. The comparator orders by the pair of counts and \<^verbatim>\<open>Array.prototype.sort\<close> is
  stable, as \<open>sort_key\<close> is.
\<close>

definition consolidateInclusions :: "inclusionEntry \<Rightarrow> inclusionEntry list \<Rightarrow> inclusionEntry list" where
  "consolidateInclusions inclusionEntry inclusions =
     sort_key (\<lambda>e. (classCount (swcClasses e), classCount (globalSwcClasses e)))
       (if 0 < classCount (swcClasses inclusionEntry) \<or> 0 < classCount (globalSwcClasses inclusionEntry)
        then inclusions @ [inclusionEntry] else inclusions)"

definition getClassesFQNames :: "'s env \<Rightarrow> string list \<Rightarrow> string list" where
  "getClassesFQNames E classFiles =
     map (\<lambda>filePath. join_with ''.'' (split_on (pathSep (path E)) filePath)) classFiles"

subsection \<open>readSwcClasses\<close>

text \<open>
  The regular expression \<^verbatim>\<open>/<def id="([^\"]+)"\s+\/>/\<close> at the head of a string: the
  literal, a longest non-empty run without a double quote, the quote, a longest
  non-empty run of white space, and \<^verbatim>\<open>/>\<close>. Neither run can end earlier, as the
  character after a shorter run is not the one the pattern asks for. The result is the
  matched text and group 1.
\<close>

definition swcDefAt :: "string \<Rightarrow> (string \<times> string) option" where
  "swcDefAt s =
     (let lit = ''<def id='' @ [CHR 0x22] in
      if \<not> prefix lit s then None
      else
        (let s1 = drop (length lit) s;
             ident = takeWhile (\<lambda>c. c \<noteq> CHR 0x22) s1;
             s2 = dropWhile (\<lambda>c. c \<noteq> CHR 0x22) s1
         in if ident = [] \<or> s2 = [] then None
            else
              (let s3 = tl s2;
                   ws = takeWhile isSpace s3;
                   s4 = dropWhile isSpace s3
               in if ws = [] \<or> \<not> prefix ''/>'' s4 then None
                  else Some (lit @ ident @ [CHR 0x22] @ ws @ ''/>'', ident))))"

text \<open>\<^verbatim>\<open>stdout.match(globalSwcDefPattern)\<close>: every match from left to right, \<^verbatim>\<open>null\<close> if none.\<close>

fun swcDefScan :: "string \<Rightarrow> string list" where
  "swcDefScan [] = []"
| "swcDefScan (c # cs) =
     (case swcDefAt (c # cs) of
        Some (m, ident) \<Rightarrow> m # swcDefScan (drop (length m - 1) cs)
      | None \<Rightarrow> swcDefScan cs)"

definition matchGlobalSwcDef :: "string \<Rightarrow> string list option" where
  "matchGlobalSwcDef s = (case swcDefScan s of [] \<Rightarrow> None | m # ms \<Rightarrow> Some (m # ms))"

text \<open>\<^verbatim>\<open>def.match(swcDefPattern)\<close>: the first match in \<open>def\<close>, \<^verbatim>\<open>null\<close> if none.\<close>

fun matchSwcDef :: "string \<Rightarrow> (string \<times> string) option" where
  "matchSwcDef [] = None"
| "matchSwcDef (c # cs) =
     (case swcDefAt (c # cs) of Some r \<Rightarrow> Some r | None \<Rightarrow> matchSwcDef cs)"

fun mapDefs :: "string list \<Rightarrow> string list outcome" where
  "mapDefs [] = Return []"
| "mapDefs (d # ds) =
     (case matchSwcDef d of
        None \<Rightarrow> Throw TypeError
      | Some (m, ident) \<Rightarrow>
          bindO (mapDefs ds) (\<lambda>others. Return (replace_first CHR '':'' CHR ''.'' ident # others)))"

definition readSwcClasses :: "'s env \<Rightarrow> 's \<Rightarrow> string \<Rightarrow> string list outcome" where
  "readSwcClasses E s swcFilePath =
     (let result = shellExecTar (fs E) s swcFilePath in
      if code result = 0 then
        (case matchGlobalSwcDef (stdout result) of
           None \<Rightarrow> Throw TypeError
         | Some matches \<Rightarrow>
             bindO (mapDefs matches)
               (\<lambda>defs. Return (filter (\<lambda>d. \<not> (d \<noteq> [] \<and> hd d = CHR ''_'')) defs)))
      else Return [])"


subsection \<open>getSrcFolderOf and getWorkspacePaths\<close>

definition getSrcFolderOf :: "'s lister \<Rightarrow> 's env \<Rightarrow> string \<Rightarrow> bool \<Rightarrow> ('s, string option) prog" where
  "getSrcFolderOf lf E projectFolder bypassWarning =
     (\<lambda>w. if existsSync (fs E) (fsState w) projectFolder then
             bindW (readW (\<lambda>s. defined (lf s projectFolder allFoldersType False False)))
               (\<lambda>listed.
                  let allFolders = sort_key length
                        (filter (\<lambda>folderPath. pathBasename (path E) folderPath = sourceFolderPath) listed)
                  in bindW (printIf (1 < length allFolders \<and> \<not> bypassWarning)
                              (SeveralSrcWarning projectFolder allFolders))
                       (\<lambda>_. returnW (case allFolders of [] \<Rightarrow> None | first # _ \<Rightarrow> Some first))) w
           else (Return None, w))"

text \<open>
  \<^verbatim>\<open>getWorkspacePaths(targetFolder)\<close>: the workspace path and the project folder base.
  The parent of the workspaces is two levels above the folder of the script.
\<close>

definition getWorkspacePaths :: "'s env \<Rightarrow> string \<Rightarrow> string \<times> string option" where
  "getWorkspacePaths E targetFolder0 =
     (let targetFolder = (if targetFolder0 = [] then processCwd (sys E) else targetFolder0);
          workspaceParentDir = pathResolve (path E) [siriusDirname (sys E), ''../../''];
          workspacePath = pathDirname (path E) targetFolder;
          safeProjectFolder = toLowerCase (sys E) targetFolder;
          safeWorkspaceParentDir = toLowerCase (sys E) workspaceParentDir
      in if prefix safeWorkspaceParentDir safeProjectFolder then
           (case filter (\<lambda>pathSegment. jsTrim pathSegment \<noteq> [])
                   (split_on (pathSep (path E))
                      (drop (length safeWorkspaceParentDir) safeProjectFolder)) of
              [] \<Rightarrow> (workspacePath, None)
            | relWorkspacePath # others \<Rightarrow>
                (if relWorkspacePath \<noteq> []
                 then pathResolve (path E) [workspaceParentDir, relWorkspacePath]
                 else workspacePath,
                 case others of [] \<Rightarrow> None | projectFolderBase # _ \<Rightarrow> Some projectFolderBase))
         else (workspacePath, None))"

subsection \<open>getInclusionsMap\<close>

text \<open>The \<^verbatim>\<open>libFiles.forEach\<close> of one project: an entry for each archive of its \<^verbatim>\<open>lib\<close> folder.\<close>

fun indexSwcFiles ::
  "'s env \<Rightarrow> 's \<Rightarrow> string list \<Rightarrow> inclusionEntry list \<Rightarrow> inclusionEntry list outcome" where
  "indexSwcFiles E s [] inclusions = Return inclusions"
| "indexSwcFiles E s (swcFile # rest) inclusions =
     bindO (readSwcClasses E s swcFile)
       (\<lambda>classes. indexSwcFiles E s rest
          (consolidateInclusions
             \<lparr>swcPath = swcFile, swcClasses = Some classes, globalSwcClasses = None\<rparr> inclusions))"

definition indexLibFolder ::
  "'s lister \<Rightarrow> 's env \<Rightarrow> string \<Rightarrow> inclusionEntry list \<Rightarrow> 's \<Rightarrow> inclusionEntry list outcome" where
  "indexLibFolder lf E dirPath inclusions s =
     (let libFolder = pathResolve (path E) [dirPath, libFolderPath] in
      if libFolder \<noteq> [] \<and> existsSync (fs E) s libFolder then
        bindO (defined (lf s libFolder swcFileType False False))
          (\<lambda>libFiles. indexSwcFiles E s libFiles inclusions)
      else Return inclusions)"

text \<open>The second half of the loop body: the classes of a library project's own sources.\<close>

definition indexSources ::
  "'s lister \<Rightarrow> 's env \<Rightarrow> bool \<Rightarrow> string \<Rightarrow> inclusionEntry list \<Rightarrow> ('s, inclusionEntry list) prog" where
  "indexSources lf E silentMode dirPath inclusions =
     (let dirName = pathBasename (path E) dirPath;
          swcName = toBinaryFileName E dirName @ ''.'' @ hd swcFileType;
          isInsideCurrentProject =
            prefix (toLowerCase (sys E) dirPath) (toLowerCase (sys E) (currentProjectFolder E))
      in bindW (getSrcFolderOf lf E dirPath (isInsideCurrentProject \<or> silentMode))
           (\<lambda>found w.
              case found of
                None \<Rightarrow> (Return inclusions, w)
              | Some sourceFolder \<Rightarrow>
                  if sourceFolder \<noteq> [] \<and> existsSync (fs E) (fsState w) sourceFolder then
                    bindW (readW (\<lambda>s. getProjectApplications lf E s sourceFolder))
                      (\<lambda>projectsApps.
                         if projectsApps \<noteq> [] then returnW inclusions
                         else
                           bindW (readW (\<lambda>s. defined (lf s sourceFolder sourceFileTypes True True)))
                             (\<lambda>classFiles.
                                let classFQNames = getClassesFQNames E classFiles;
                                    qualified = filter (\<lambda>className. containsStr ''.'' className
                                        \<and> \<not> containsStr unitTestingClassPrefix className) classFQNames;
                                    global = filter (\<lambda>className. \<not> containsStr ''.'' className
                                        \<and> \<not> containsStr unitTestingAppPrefix className) classFQNames;
                                    inclusionEntry =
                                      \<lparr>swcPath = pathJoin (path E) [dirPath, binFolderPath, swcName],
                                       swcClasses = Some qualified, globalSwcClasses = Some global\<rparr>
                                in bindW (printIf (0 < length global \<and> \<not> silentMode)
                                            (GlobalClassesWarning
                                               (pathDirname (path E) sourceFolder) global))
                                     (\<lambda>_. returnW (consolidateInclusions inclusionEntry inclusions)))) w
                  else (Return inclusions, w)))"

fun indexWorkspaceDirs ::
  "'s lister \<Rightarrow> 's env \<Rightarrow> bool \<Rightarrow> string list \<Rightarrow> inclusionEntry list \<Rightarrow> ('s, inclusionEntry list) prog" where
  "indexWorkspaceDirs lf E silentMode [] inclusions = returnW inclusions"
| "indexWorkspaceDirs lf E silentMode (dirPath # rest) inclusions =
     bindW (readW (indexLibFolder lf E dirPath inclusions))
       (\<lambda>withLibs. bindW (indexSources lf E silentMode dirPath withLibs)
          (\<lambda>withSources. indexWorkspaceDirs lf E silentMode rest withSources))"

definition writeIndexCache :: "'s env \<Rightarrow> string \<Rightarrow> inclusionEntry list \<Rightarrow> ('s, unit) prog" where
  "writeIndexCache E cachedInclusionsFile inclusions =
     (\<lambda>w. case writeFileSync (fs E) (fsState w) cachedInclusionsFile
                 (jsonStringify (sys E) inclusions) of
             None \<Rightarrow> (Throw SystemError, w)
           | Some s' \<Rightarrow>
               (Return (), w\<lparr>fsState := s',
                               events := events w @ [WriteIndexCache cachedInclusionsFile]\<rparr>))"

text \<open>The branch \<^verbatim>\<open>if (!cacheExists || cacheCorrupted)\<close>: scan every folder of the workspace, then write the cache.\<close>

definition rebuildInclusions ::
  "'s lister \<Rightarrow> 's env \<Rightarrow> string \<Rightarrow> bool \<Rightarrow> string \<Rightarrow> ('s, inclusionEntry list) prog" where
  "rebuildInclusions lf E searchPath silentMode cachedInclusionsFile =
     bindW (readW (\<lambda>s. defined (listFolders lf s searchPath)))
       (\<lambda>workspaceDirs. bindW (indexWorkspaceDirs lf E silentMode workspaceDirs [])
          (\<lambda>inclusions. bindW (writeIndexCache E cachedInclusionsFile inclusions)
             (\<lambda>_. bindW (printIf (\<not> silentMode) (WroteCacheInfo cachedInclusionsFile))
                (\<lambda>_. returnW inclusions))))"

definition getInclusionsMap ::
  "'s lister \<Rightarrow> 's env \<Rightarrow> string \<Rightarrow> bool \<Rightarrow> ('s, inclusionEntry list) prog" where
  "getInclusionsMap lf E searchPath silentMode =
     (\<lambda>w. let cachedInclusionsFile = pathResolve (path E) [searchPath, inclusionsFileName] in
           if existsSync (fs E) (fsState w) cachedInclusionsFile then
             (case readFileSync (fs E) (fsState w) cachedInclusionsFile of
                None \<Rightarrow> (Throw SystemError, w)
              | Some raw \<Rightarrow>
                  (let cachedInclusions = jsTrim raw in
                   if cachedInclusions \<noteq> [] then
                     (case jsonParse (sys E) cachedInclusions of
                        Some parsed \<Rightarrow>
                          bindW (printIf (\<not> silentMode) (ReusedCacheInfo cachedInclusionsFile))
                            (\<lambda>_. returnW parsed) w
                      | None \<Rightarrow>
                          bindW (printIf (\<not> silentMode) (CorruptCacheWarning cachedInclusionsFile))
                            (\<lambda>_. rebuildInclusions lf E searchPath silentMode cachedInclusionsFile) w)
                   else (Return [], w)))
           else rebuildInclusions lf E searchPath silentMode cachedInclusionsFile w)"


subsection \<open>mustBuildProject and deleteCache\<close>

text \<open>
  The three lines both functions share: load the index of the workspace, scan the
  sources for class references, resolve them to archives. The warnings of
  \<^verbatim>\<open>getMatchingSWCs\<close> are handed to \<^verbatim>\<open>$print\<close>.
\<close>

definition resolveExternalSWCs ::
  "'s lister \<Rightarrow> 's env \<Rightarrow> string \<Rightarrow> string \<Rightarrow> ('s, string list) prog" where
  "resolveExternalSWCs lf E workspacePath sourceFolder =
     bindW (getInclusionsMap lf E workspacePath True)
       (\<lambda>inclusionsMap. bindW (readW (\<lambda>s. listClassImports lf E s sourceFolder))
          (\<lambda>externalQualifiedClasses.
             case getMatchingSWCs inclusionsMap externalQualifiedClasses SwcClassesField of
               Inl e \<Rightarrow> throwW e
             | Inr (externalSWCs, printed) \<Rightarrow>
                 bindW (emitAll (map Print printed)) (\<lambda>_. returnW externalSWCs)))"

text \<open>The path of the binary a project is expected to produce: a SWF for an application, a SWC for a library.\<close>

definition expectedBinaryPath ::
  "'s lister \<Rightarrow> 's env \<Rightarrow> 's \<Rightarrow> string \<Rightarrow> string \<Rightarrow> string \<Rightarrow> string outcome" where
  "expectedBinaryPath lf E s projectFolderPath sourceFolder binFolder =
     bindO (getProjectApplications lf E s sourceFolder)
       (\<lambda>apps.
          let isAppProject = (case apps of [] \<Rightarrow> False | projectActiveApp # _ \<Rightarrow> projectActiveApp \<noteq> [])
          in if isAppProject then
               (let projectActiveApp = hd apps;
                    projectName = pathBasenameExt (path E) projectActiveApp
                                    (pathExtname (path E) projectActiveApp);
                    swfFileName = toBinaryFileName E projectName @ ''.'' @ hd swfFileType
                in Return (pathResolve (path E) [binFolder, swfFileName]))
             else
               (let projectName = pathBasename (path E) projectFolderPath;
                    swcFileName = toBinaryFileName E projectName @ ''.'' @ hd swcFileType
                in Return (pathResolve (path E) [binFolder, swcFileName])))"

fun anyNewer :: "'s env \<Rightarrow> 's \<Rightarrow> int \<Rightarrow> string list \<Rightarrow> bool outcome" where
  "anyNewer E s binaryFileModificationTime [] = Return False"
| "anyNewer E s binaryFileModificationTime (srcFilePath # rest) =
     bindO (orThrow (statMtime (fs E) s srcFilePath))
       (\<lambda>srcFileModificationTime.
          if srcFileModificationTime > binaryFileModificationTime then Return True
          else anyNewer E s binaryFileModificationTime rest)"

text \<open>The part of \<^verbatim>\<open>mustBuildProject\<close> after the dependencies: "then check the project itself".\<close>

definition projectItselfStale ::
  "'s lister \<Rightarrow> 's env \<Rightarrow> 's \<Rightarrow> string \<Rightarrow> string \<Rightarrow> string \<Rightarrow> bool outcome" where
  "projectItselfStale lf E s projectFolderPath sourceFolder binFolder =
     bindO (expectedBinaryPath lf E s projectFolderPath sourceFolder binFolder)
       (\<lambda>binaryFilePath.
          if binaryFilePath = [] \<or> \<not> existsSync (fs E) s binaryFilePath then Return True
          else
            bindO (orThrow (statMtime (fs E) s binaryFilePath))
              (\<lambda>binaryFileModificationTime.
                 bindO (defined (lf s sourceFolder allFilesType False False))
                   (\<lambda>srcFiles. anyNewer E s binaryFileModificationTime srcFiles)))"

text \<open>
  \<^verbatim>\<open>mustBuildProject\<close> and its loop over the resolved archives. The fuel bounds the
  depth of the recursion into dependency projects; only a recursive call uses it up.
\<close>

fun mustBuildProject :: "'s lister \<Rightarrow> 's env \<Rightarrow> nat \<Rightarrow> string \<Rightarrow> ('s, bool) prog"
  and mustBuildDeps :: "'s lister \<Rightarrow> 's env \<Rightarrow> nat \<Rightarrow> string \<Rightarrow> string list \<Rightarrow> ('s, bool) prog" where
  "mustBuildProject lf E 0 projectFolderPath = (\<lambda>w. (NoFuel, w))"
| "mustBuildProject lf E (Suc n) projectFolderPath =
     (\<lambda>w. if projectFolderPath \<noteq> [] \<and> existsSync (fs E) (fsState w) projectFolderPath then
             bindW (getSrcFolderOf lf E projectFolderPath True)
               (\<lambda>found w1.
                  case found of
                    None \<Rightarrow> (Return False, w1)
                  | Some sourceFolder \<Rightarrow>
                      if sourceFolder \<noteq> [] \<and> existsSync (fs E) (fsState w1) sourceFolder then
                        (let binFolder = pathResolve (path E)
                                           [pathDirname (path E) sourceFolder, binFolderPath] in
                         if \<not> existsSync (fs E) (fsState w1) binFolder then (Return True, w1)
                         else
                           bindW (resolveExternalSWCs lf E
                                    (fst (getWorkspacePaths E projectFolderPath)) sourceFolder)
                             (\<lambda>externalSWCs.
                                bindW (mustBuildDeps lf E n projectFolderPath externalSWCs)
                                  (\<lambda>dependencyDirty.
                                     if dependencyDirty then returnW True
                                     else readW (\<lambda>s. projectItselfStale lf E s
                                                   projectFolderPath sourceFolder binFolder))) w1)
                      else (Return False, w1)) w
           else (Return False, w))"
| "mustBuildDeps lf E n projectFolderPath [] = returnW False"
| "mustBuildDeps lf E n projectFolderPath (swcFile # rest) =
     (\<lambda>w. let dependencyPath = pathDirname (path E) (pathDirname (path E) swcFile) in
           if pathsAreEqual E (fsState w) dependencyPath projectFolderPath
           then mustBuildDeps lf E n projectFolderPath rest w
           else
             bindW (mustBuildProject lf E n dependencyPath)
               (\<lambda>dirty. if dirty then returnW True
                         else mustBuildDeps lf E n projectFolderPath rest) w)"



definition deleteBinary :: "'s lister \<Rightarrow> 's env \<Rightarrow> string \<Rightarrow> string \<Rightarrow> ('s, unit) prog" where
  "deleteBinary lf E projectFolderPath sourceFolder =
     (let binFolder = pathResolve (path E) [pathDirname (path E) sourceFolder, binFolderPath] in
      bindW (readW (\<lambda>s. expectedBinaryPath lf E s projectFolderPath sourceFolder binFolder))
        (\<lambda>binaryFilePath w.
           if binaryFilePath \<noteq> [] \<and> existsSync (fs E) (fsState w) binaryFilePath then
             (Return (),
              w\<lparr>fsState := deletePathNode E binaryFilePath (fsState w),
                events := events w @ [Print (DeletingBinaryInfo binaryFilePath),
                                      DeleteBinary binaryFilePath]\<rparr>)
           else (Return (), w)))"

definition deleteInclusionsFile :: "'s env \<Rightarrow> string \<Rightarrow> ('s, unit) prog" where
  "deleteInclusionsFile E workspacePath =
     (\<lambda>w. let cachedInclusionsFile = pathResolve (path E) [workspacePath, inclusionsFileName] in
           if existsSync (fs E) (fsState w) cachedInclusionsFile then
             (Return (),
              w\<lparr>fsState := deletePathNode E cachedInclusionsFile (fsState w),
                events := events w @ [Print (DeletingCacheInfo cachedInclusionsFile),
                                      DeleteIndexCache cachedInclusionsFile]\<rparr>)
           else (Return (), w))"

text \<open>\<^verbatim>\<open>deleteCache(projectFolderPath, keepInclusionsFile)\<close> and its loop over the resolved archives.\<close>

fun deleteCache :: "'s lister \<Rightarrow> 's env \<Rightarrow> nat \<Rightarrow> string \<Rightarrow> bool \<Rightarrow> ('s, unit) prog"
  and deleteDeps :: "'s lister \<Rightarrow> 's env \<Rightarrow> nat \<Rightarrow> string \<Rightarrow> string list \<Rightarrow> ('s, unit) prog" where
  "deleteCache lf E 0 projectFolderPath keepInclusionsFile = (\<lambda>w. (NoFuel, w))"
| "deleteCache lf E (Suc n) projectFolderPath keepInclusionsFile =
     (\<lambda>w. if projectFolderPath \<noteq> [] \<and> existsSync (fs E) (fsState w) projectFolderPath then
             (let workspacePath = fst (getWorkspacePaths E projectFolderPath) in
              bindW (getSrcFolderOf lf E projectFolderPath True)
                (\<lambda>found.
                   bindW
                     (\<lambda>w1. case found of
                              None \<Rightarrow> (Return (), w1)
                            | Some sourceFolder \<Rightarrow>
                                if sourceFolder \<noteq> [] \<and> existsSync (fs E) (fsState w1) sourceFolder then
                                  bindW (resolveExternalSWCs lf E workspacePath sourceFolder)
                                    (\<lambda>externalSWCs.
                                       bindW (deleteDeps lf E n projectFolderPath externalSWCs)
                                         (\<lambda>_. deleteBinary lf E projectFolderPath sourceFolder)) w1
                                else (Return (), w1))
                     (\<lambda>_. if \<not> keepInclusionsFile then deleteInclusionsFile E workspacePath
                           else returnW ())) w)
           else (Return (), w))"
| "deleteDeps lf E n projectFolderPath [] = returnW ()"
| "deleteDeps lf E n projectFolderPath (swcFile # rest) =
     (\<lambda>w. let dependencyPath = pathDirname (path E) (pathDirname (path E) swcFile) in
           if pathsAreEqual E (fsState w) dependencyPath projectFolderPath
           then deleteDeps lf E n projectFolderPath rest w
           else
             bindW (deleteCache lf E n dependencyPath True)
               (\<lambda>_. deleteDeps lf E n projectFolderPath rest) w)"


subsection \<open>The specification's reading of a package wildcard\<close>

text \<open>
  The specification compares a package with a class on whole segments of the dotted
  path: \<^verbatim>\<open>com.acme\<close> is a prefix of \<^verbatim>\<open>com.acme.ui.Button\<close> and not of
  \<^verbatim>\<open>com.acmeplus.Widget\<close>.
\<close>

definition segmentPrefix :: "string \<Rightarrow> string \<Rightarrow> bool" where
  "segmentPrefix pkg cls = prefix (split_on CHR ''.'' pkg) (split_on CHR ''.'' cls)"

subsection \<open>The specification's canonical equality of paths\<close>


subsection \<open>Deletions of the index cache in a run\<close>

text \<open>The cache files that \<^verbatim>\<open>deletePathNode\<close> was called on as the index cache, in order.\<close>

fun indexCacheDeletions :: "event list \<Rightarrow> string list" where
  "indexCacheDeletions [] = []"
| "indexCacheDeletions (DeleteIndexCache c # evs) = c # indexCacheDeletions evs"
| "indexCacheDeletions (ev # evs) = indexCacheDeletions evs"

text \<open>
  \<open>keepsIndexCache w' w\<close>: the world \<open>w'\<close> extends the events of \<open>w\<close> without a deletion of
  the index cache. \<open>indexCacheLast w' w\<close>: it extends them with at most one such deletion,
  which is then the last event.
\<close>

definition keepsIndexCache :: "'s world \<Rightarrow> 's world \<Rightarrow> bool" where
  "keepsIndexCache w' w =
     (\<exists>new. events w' = events w @ new \<and> (\<forall>c. DeleteIndexCache c \<notin> set new))"

definition indexCacheLast :: "'s world \<Rightarrow> 's world \<Rightarrow> bool" where
  "indexCacheLast w' w =
     (\<exists>before. (\<forall>c. DeleteIndexCache c \<notin> set before)
        \<and> (events w' = events w @ before
             \<or> (\<exists>c. events w' = events w @ before @ [DeleteIndexCache c])))"

subsection \<open>A small platform and workspace for the examples\<close>

text \<open>
  A file system as an association list from absolute paths to files (content and
  modification time) and directories (entry names and modification time), with
  POSIX-like path functions that are enough for the paths of the examples.
\<close>

datatype fnode = FileNode string int | DirNode "string list" int

type_synonym fsys = "(string \<times> fnode) list"

definition dirnameP :: "string \<Rightarrow> string" where
  "dirnameP p = join_with ''/'' (butlast (split_on CHR ''/'' p))"

definition basenameP :: "string \<Rightarrow> string" where
  "basenameP p = last (split_on CHR ''/'' p)"

definition extnameP :: "string \<Rightarrow> string" where
  "extnameP p = (let b = basenameP p
                 in if CHR ''.'' \<in> set b then CHR ''.'' # last (split_on CHR ''.'' b) else [])"

definition basenameExtP :: "string \<Rightarrow> string \<Rightarrow> string" where
  "basenameExtP p ext = (let b = basenameP p
                         in if ext \<noteq> [] \<and> suffix ext b \<and> b \<noteq> ext
                            then take (length b - length ext) b else b)"

definition resolveP :: "string list \<Rightarrow> string" where
  "resolveP segs = (case segs of
                      [a, b] \<Rightarrow> (if b = ''../../'' then dirnameP (dirnameP a) else a @ ''/'' @ b)
                    | _ \<Rightarrow> join_with ''/'' segs)"

definition demoPath :: pathApi where
  "demoPath = \<lparr>pathSep = CHR ''/'', pathResolve = resolveP, pathJoin = join_with ''/'',
     pathDirname = dirnameP, pathBasename = basenameP, pathBasenameExt = basenameExtP,
     pathExtname = extnameP, pathRelative = (\<lambda>folder sub. drop (Suc (length folder)) sub)\<rparr>"

fun isDirNode :: "fnode \<Rightarrow> bool" where
  "isDirNode (DirNode _ _) = True"
| "isDirNode (FileNode _ _) = False"

fun mtimeOf :: "fnode \<Rightarrow> int" where
  "mtimeOf (DirNode _ t) = t"
| "mtimeOf (FileNode _ t) = t"

fun contentOf :: "fnode option \<Rightarrow> string option" where
  "contentOf (Some (FileNode c _)) = Some c"
| "contentOf _ = None"

fun entriesOf :: "fnode option \<Rightarrow> string list option" where
  "entriesOf (Some (DirNode names _)) = Some names"
| "entriesOf _ = None"

text \<open>
  The archive inspection of the examples prints the content of the file: an archive
  is represented by its catalog.
\<close>

definition demoFs :: "fsys fsApi" where
  "demoFs = \<lparr>existsSync = (\<lambda>s p. map_of s p \<noteq> None),
     statIsDirectory = (\<lambda>s p. map_option isDirNode (map_of s p)),
     lstatIsDirectory = (\<lambda>s p. map_option isDirNode (map_of s p)),
     statMtime = (\<lambda>s p. map_option mtimeOf (map_of s p)),
     readdirSync = (\<lambda>s p. entriesOf (map_of s p)),
     readFileSync = (\<lambda>s p. contentOf (map_of s p)),
     readHeaderBytes = (\<lambda>s p n. map_option (take n) (contentOf (map_of s p))),
     realpathSync = (\<lambda>s p. if map_of s p \<noteq> None then Some p else None),
     writeFileSync = (\<lambda>s p c. Some ((p, FileNode c 0) # filter (\<lambda>e. fst e \<noteq> p) s)),
     unlinkSync = (\<lambda>s p. Some (filter (\<lambda>e. fst e \<noteq> p) s)),
     rmdirSyncRecursive = (\<lambda>s p. Some (filter (\<lambda>e. \<not> prefix p (fst e)) s)),
     shellExecTar = (\<lambda>s p. case contentOf (map_of s p) of
                              Some c \<Rightarrow> \<lparr>code = 0, stdout = c\<rparr>
                            | None \<Rightarrow> \<lparr>code = 2, stdout = []\<rparr>)\<rparr>"

definition asciiLower :: "char \<Rightarrow> char" where
  "asciiLower c = (if CHR ''A'' \<le> c \<and> c \<le> CHR ''Z'' then char_of (of_char c + (32::nat)) else c)"

definition demoIndex :: "inclusionEntry list" where
  "demoIndex =
     [\<lparr>swcPath = ''/ws/LibA/bin/liba.swc'', swcClasses = Some [''com.a.X''], globalSwcClasses = Some []\<rparr>,
      \<lparr>swcPath = ''/ws/LibB/bin/libb.swc'', swcClasses = Some [''com.b.Y''], globalSwcClasses = Some []\<rparr>]"

text \<open>
  The scanners of the examples: an import is a piece between semicolons that starts with
  \<^verbatim>\<open>import\<close>; the cache text \<^verbatim>\<open>[liba, libb]\<close> parses to \<open>demoIndex\<close> and nothing
  else parses.
\<close>

definition demoSys :: sysApi where
  "demoSys = \<lparr>platformWin32 = False, processCwd = ''/ws/App1'', siriusDirname = ''/opt/tools/sirius'',
     toLowerCase = map asciiLower,
     regexTest = (\<lambda>src text. True),
     matchImportClassFqn = (\<lambda>c. filter (prefix ''import '') (split_on CHR '';'' c)),
     matchInlineClassFqn = (\<lambda>c. []),
     execXmlnsImportClass = (\<lambda>c. []),
     jsonParse = (\<lambda>c. if c = ''[liba, libb]'' then Some demoIndex else None),
     jsonStringify = (\<lambda>i. ''[rebuilt]'')\<rparr>"

definition demoEnv :: "fsys env" where
  "demoEnv = \<lparr>path = demoPath, fs = demoFs, sys = demoSys, currentProjectFolder = ''/ws/App1''\<rparr>"

text \<open>
  The workspace \<^verbatim>\<open>/ws\<close>: the application \<^verbatim>\<open>App1\<close>, which imports a class of each of the
  libraries \<^verbatim>\<open>LibA\<close> and \<^verbatim>\<open>LibB\<close>; \<^verbatim>\<open>LibA\<close> imports a class of its own; \<^verbatim>\<open>Docs\<close>
  has no source folder. Every binary is newer than its sources.
\<close>

definition demoTree :: fsys where
  "demoTree =
     [(''/ws'', DirNode [''App1'', ''LibA'', ''LibB'', ''Docs'', ''sirius.inclusions.cache''] 1),
      (''/ws/sirius.inclusions.cache'', FileNode ''[liba, libb]'' 2),
      (''/ws/App1'', DirNode [''src'', ''bin''] 1),
      (''/ws/App1/src'', DirNode [''Main.mxml''] 1),
      (''/ws/App1/src/Main.mxml'',
         FileNode ''import com.a.X;import com.b.Y;<s:WindowedApplication/>'' 5),
      (''/ws/App1/bin'', DirNode [''main.swf''] 1),
      (''/ws/App1/bin/main.swf'', FileNode [] 9),
      (''/ws/LibA'', DirNode [''src'', ''bin''] 1),
      (''/ws/LibA/src'', DirNode [''X.as''] 1),
      (''/ws/LibA/src/X.as'', FileNode ''import com.a.X;'' 3),
      (''/ws/LibA/bin'', DirNode [''liba.swc''] 1),
      (''/ws/LibA/bin/liba.swc'', FileNode ''<swc></swc>'' 4),
      (''/ws/LibB'', DirNode [''src'', ''bin''] 1),
      (''/ws/LibB/src'', DirNode [''Y.as''] 1),
      (''/ws/LibB/src/Y.as'', FileNode [] 3),
      (''/ws/LibB/bin'', DirNode [''libb.swc''] 1),
      (''/ws/LibB/bin/libb.swc'',
         FileNode (''<swc><def id='' @ [CHR 0x22] @ ''com.b:Y'' @ [CHR 0x22] @ '' /><def id=''
                     @ [CHR 0x22] @ ''_internal'' @ [CHR 0x22] @ ''  /></swc>'') 4),
      (''/ws/Docs'', DirNode [''readme.txt''] 1),
      (''/ws/Docs/readme.txt'', FileNode [] 1)]"

definition demoWorld :: "fsys world" where
  "demoWorld = \<lparr>fsState = demoTree, events = []\<rparr>"





text \<open>The workspace with one more entry, the plain file \<^verbatim>\<open>/ws/notes.txt\<close>.\<close>

definition notesWorld :: "fsys world" where
  "notesWorld = \<lparr>fsState = (''/ws/notes.txt'', FileNode [] 1) # demoTree, events = []\<rparr>"

text \<open>The same workspace with a cache file that holds white space only.\<close>

definition blankCacheWorld :: "fsys world" where
  "blankCacheWorld =
     \<lparr>fsState = (''/ws/sirius.inclusions.cache'', FileNode [CHR 0x20, CHR 0x0A] 2) # demoTree,
      events = []\<rparr>"

text \<open>An index in which two archives provide the class \<^verbatim>\<open>a.B\<close>.\<close>

definition twoLibs :: "inclusionEntry list" where
  "twoLibs =
     [\<lparr>swcPath = ''/ws/LibA/bin/liba.swc'', swcClasses = Some [''a.B''], globalSwcClasses = None\<rparr>,
      \<lparr>swcPath = ''/ws/LibB/bin/libb.swc'', swcClasses = Some [''a.B'', ''a.D''],
       globalSwcClasses = None\<rparr>]"

section \<open>Properties\<close>

subsection \<open>Strings and lists\<close>

lemma split_on_nonempty [simp]: "split_on c xs \<noteq> []"
  by (induction xs) (auto split: list.splits)

lemma split_on_append_sep: "split_on c (xs @ c # ys) = split_on c xs @ split_on c ys"
  by (induction xs) (auto split: list.splits)

lemma join_with_Cons_Cons: "join_with sep ((x # a) # rest) = x # join_with sep (a # rest)"
  by (cases rest) auto

lemma join_with_split_on: "join_with [c] (split_on c xs) = xs"
proof (induction xs)
  case Nil
  then show ?case by simp
next
  case (Cons x xs)
  obtain y ys where s: "split_on c xs = y # ys"
    by (cases "split_on c xs") auto
  show ?case using Cons s by (auto simp: join_with_Cons_Cons)
qed

lemma partialFqn_wildcard: "partialFqn (pkg @ ''.*'') = pkg"
proof -
  have "split_on CHR ''.'' (pkg @ ''.*'') = split_on CHR ''.'' pkg @ [''*'']"
    using split_on_append_sep [of "CHR ''.''" pkg "''*''"] by simp
  then show ?thesis by (simp add: partialFqn_def join_with_split_on)
qed

lemma havePartialFqn_wildcard: "havePartialFqn (pkg @ ''.*'')"
  by (simp add: havePartialFqn_def)

lemma filterE_total:
  "\<forall>x\<in>set xs. p x = Inr (q x) \<Longrightarrow> filterE p xs = Inr (filter q xs)"
  by (induction xs) auto

lemma set_pushMatches:
  "set (pushMatches acc ms) = set acc \<union> {m \<in> set ms. m \<noteq> []}"
  by (induction ms arbitrary: acc) auto

lemma distinct_pushMatches:
  "distinct acc \<Longrightarrow> distinct (pushMatches acc ms)"
  by (induction ms arbitrary: acc) auto

subsection \<open>Package wildcards\<close>

lemma recordMatches_wildcard:
  "fieldOf field r = Some cs \<Longrightarrow>
   recordMatches field (pkg @ ''.*'') r = Inr (\<exists>c\<in>set cs. prefix pkg c)"
  by (auto simp: recordMatches_def havePartialFqn_wildcard partialFqn_wildcard filter_empty_conv)

lemma matchingSWCsOf_wildcard:
  assumes "\<forall>r\<in>set inclusions. fieldOf field r \<noteq> None"
  shows "matchingSWCsOf field inclusions (pkg @ ''.*'') =
         Inr (map swcPath (filter
           (\<lambda>r. \<exists>cs. fieldOf field r = Some cs \<and> (\<exists>c\<in>set cs. prefix pkg c)) inclusions))"
proof -
  let ?hit = "\<lambda>r. \<exists>cs. fieldOf field r = Some cs \<and> (\<exists>c\<in>set cs. prefix pkg c)"
  have "\<forall>r\<in>set inclusions. recordMatches field (pkg @ ''.*'') r = Inr (?hit r)"
    using assms by (auto simp: recordMatches_wildcard)
  then have "filterE (recordMatches field (pkg @ ''.*'')) inclusions
             = Inr (filter ?hit inclusions)"
    by (rule filterE_total)
  then show ?thesis by (simp add: matchingSWCsOf_def)
qed

text \<open>
  C1, as the code has it. For a request \<^verbatim>\<open>pkg.*\<close> against an index whose records all
  carry the searched field, \<^verbatim>\<open>getMatchingSWCs\<close> returns, without any warning, exactly
  the non-empty archive paths of the records in which some class of the searched field
  begins with the characters of \<open>pkg\<close>; each path once, in descending order. The
  comparison is on characters, not on segments of the dotted path.
\<close>

theorem getMatchingSWCs_wildcard_prefix:
  assumes "\<forall>r\<in>set inclusions. fieldOf field r \<noteq> None"
  shows "\<exists>paths. getMatchingSWCs inclusions [pkg @ ''.*''] field = Inr (paths, [])
           \<and> set paths = {swcPath r |r. r \<in> set inclusions \<and> swcPath r \<noteq> []
                 \<and> (\<exists>cs. fieldOf field r = Some cs \<and> (\<exists>c\<in>set cs. prefix pkg c))}
           \<and> distinct paths \<and> sorted (rev paths)"
proof (cases "inclusions = []")
  case True
  then show ?thesis by (simp add: getMatchingSWCs_def)
next
  case False
  let ?hit = "\<lambda>r. \<exists>cs. fieldOf field r = Some cs \<and> (\<exists>c\<in>set cs. prefix pkg c)"
  let ?ms = "map swcPath (filter ?hit inclusions)"
  have m: "matchingSWCsOf field inclusions (pkg @ ''.*'') = Inr ?ms"
    by (rule matchingSWCsOf_wildcard [OF assms])
  have a: "afterCollision (pkg @ ''.*'') ?ms = (?ms, [])"
    by (simp add: afterCollision_def havePartialFqn_wildcard)
  have g: "getMatchingSWCs inclusions [pkg @ ''.*''] field
           = Inr (rev (sort (pushMatches [] ?ms)), [])"
    using False by (simp add: getMatchingSWCs_def m a)
  have s: "set (pushMatches [] ?ms) = {swcPath r |r. r \<in> set inclusions \<and> swcPath r \<noteq> []
                 \<and> (\<exists>cs. fieldOf field r = Some cs \<and> (\<exists>c\<in>set cs. prefix pkg c))}"
    by (auto simp: set_pushMatches)
  have d: "distinct (pushMatches [] ?ms)"
    by (simp add: distinct_pushMatches)
  show ?thesis using g s d by simp
qed

theorem getMatchingSWCs_wildcard_prefix_witness:
  "\<exists>paths. getMatchingSWCs
      [\<lparr>swcPath = ''/ws/LibA/bin/liba.swc'',
        swcClasses = Some [''com.acme.ui.Button'', ''com.acme.ui.Label''],
        globalSwcClasses = None\<rparr>] [''com.acme'' @ ''.*''] SwcClassesField = Inr (paths, [])
      \<and> set paths = {''/ws/LibA/bin/liba.swc''}"
proof -
  let ?r = "\<lparr>swcPath = ''/ws/LibA/bin/liba.swc'',
        swcClasses = Some [''com.acme.ui.Button'', ''com.acme.ui.Label''],
        globalSwcClasses = None\<rparr>"
  have h: "\<forall>r\<in>set [?r]. fieldOf SwcClassesField r \<noteq> None"
    by simp
  from getMatchingSWCs_wildcard_prefix [OF h, of "''com.acme''"]
  obtain paths where p: "getMatchingSWCs [?r] [''com.acme'' @ ''.*''] SwcClassesField = Inr (paths, [])"
    and s: "set paths = {swcPath r |r. r \<in> set [?r] \<and> swcPath r \<noteq> []
                 \<and> (\<exists>cs. fieldOf SwcClassesField r = Some cs \<and> (\<exists>c\<in>set cs. prefix ''com.acme'' c))}"
    by blast
  have "set paths = {''/ws/LibA/bin/liba.swc''}"
    unfolding s by auto
  with p show ?thesis by blast
qed

text \<open>
  C1 as the specification states it fails: the request \<^verbatim>\<open>com.acme.*\<close> selects a record
  whose only class is \<^verbatim>\<open>com.acmeplus.Widget\<close>, although \<^verbatim>\<open>com.acme\<close> is not a prefix
  of that class on whole segments.
\<close>

theorem wildcard_segment_counterexample:
  "getMatchingSWCs
      [\<lparr>swcPath = ''/ws/LibP/bin/libp.swc'',
        swcClasses = Some [''com.acmeplus.Widget''],
        globalSwcClasses = None\<rparr>] [''com.acme.*''] SwcClassesField
     = Inr ([''/ws/LibP/bin/libp.swc''], [])
   \<and> \<not> segmentPrefix ''com.acme'' ''com.acmeplus.Widget''"
  by code_simp

subsection \<open>Name collisions\<close>

lemma matchingSWCsOf_exact:
  assumes "\<not> havePartialFqn fqn"
  shows "matchingSWCsOf field inclusions fqn =
         Inr (map swcPath (filter
           (\<lambda>r. \<exists>cs. fieldOf field r = Some cs \<and> fqn \<in> set cs) inclusions))"
proof -
  let ?hit = "\<lambda>r. \<exists>cs. fieldOf field r = Some cs \<and> fqn \<in> set cs"
  have "\<forall>r\<in>set inclusions. recordMatches field fqn r = Inr (?hit r)"
    using assms by (auto simp: recordMatches_def split: option.splits)
  then have "filterE (recordMatches field fqn) inclusions = Inr (filter ?hit inclusions)"
    by (rule filterE_total)
  then show ?thesis by (simp add: matchingSWCsOf_def)
qed

lemma resolveEach_result:
  "resolveEach field inclusions fqns (acc, pr) = Inr (paths, printed) \<Longrightarrow>
   set paths = set acc \<union> {m. m \<noteq> [] \<and> (\<exists>g\<in>set fqns. \<exists>ms.
                    matchingSWCsOf field inclusions g = Inr ms \<and> m \<in> set (fst (afterCollision g ms)))}
   \<and> set printed = set pr \<union> {msg. \<exists>g\<in>set fqns. \<exists>ms.
                    matchingSWCsOf field inclusions g = Inr ms \<and> msg \<in> set (snd (afterCollision g ms))}"
proof (induction fqns arbitrary: acc pr)
  case Nil
  then show ?case by simp
next
  case (Cons g gs)
  from Cons.prems obtain ms where ms: "matchingSWCsOf field inclusions g = Inr ms"
    by (auto split: sum.splits)
  obtain kept msgs where ac: "afterCollision g ms = (kept, msgs)"
    by (cases "afterCollision g ms") auto
  from Cons.prems ms ac
  have "resolveEach field inclusions gs (pushMatches acc kept, pr @ msgs) = Inr (paths, printed)"
    by simp
  from Cons.IH [OF this] ms ac show ?case
    by (auto simp: set_pushMatches)
qed

text \<open>
  C6, as the code has it. Let an exact (non-wildcard) class be provided by the records
  with the paths \<open>p, q, \<dots>\<close> (two or more, in index order). A request for that class
  alone returns \<open>p\<close> only (nothing if \<open>p\<close> is the empty string) and hands \<^verbatim>\<open>$print\<close> one
  warning that names all of \<open>p, q, \<dots>\<close>. In a request for several classes the warning is
  handed over as well and \<open>p\<close> is returned, and another of the candidates is returned
  only where a different requested class selects it.
\<close>

theorem getMatchingSWCs_collision_first:
  assumes "\<not> havePartialFqn fqn"
    and "map swcPath (filter (\<lambda>r. \<exists>cs. fieldOf field r = Some cs \<and> fqn \<in> set cs) inclusions)
           = p # q # rest"
  shows "getMatchingSWCs inclusions [fqn] field
           = Inr (if p = [] then [] else [p], [CollisionWarning fqn (p # q # rest)])
       \<and> (\<forall>classFQNs paths printed.
            fqn \<in> set classFQNs \<and> getMatchingSWCs inclusions classFQNs field = Inr (paths, printed)
            \<longrightarrow> CollisionWarning fqn (p # q # rest) \<in> set printed
               \<and> (p \<noteq> [] \<longrightarrow> p \<in> set paths)
               \<and> (\<forall>c\<in>set paths. c \<in> set (q # rest) \<and> c \<noteq> p \<longrightarrow>
                    (\<exists>g\<in>set classFQNs. g \<noteq> fqn \<and> (\<exists>ms.
                       matchingSWCsOf field inclusions g = Inr ms
                       \<and> c \<in> set (fst (afterCollision g ms))))))"
proof -
  have ne: "inclusions \<noteq> []" using assms(2) by auto
  have m: "matchingSWCsOf field inclusions fqn = Inr (p # q # rest)"
    using matchingSWCsOf_exact [OF assms(1)] assms(2) by simp
  have a: "afterCollision fqn (p # q # rest) = ([p], [CollisionWarning fqn (p # q # rest)])"
    using assms(1) by (simp add: afterCollision_def)
  have single: "getMatchingSWCs inclusions [fqn] field
           = Inr (if p = [] then [] else [p], [CollisionWarning fqn (p # q # rest)])"
    using ne by (simp add: getMatchingSWCs_def m a)
  have multi: "CollisionWarning fqn (p # q # rest) \<in> set printed
               \<and> (p \<noteq> [] \<longrightarrow> p \<in> set paths)
               \<and> (\<forall>c\<in>set paths. c \<in> set (q # rest) \<and> c \<noteq> p \<longrightarrow>
                    (\<exists>g\<in>set classFQNs. g \<noteq> fqn \<and> (\<exists>ms.
                       matchingSWCsOf field inclusions g = Inr ms
                       \<and> c \<in> set (fst (afterCollision g ms)))))"
    if mem: "fqn \<in> set classFQNs"
      and res: "getMatchingSWCs inclusions classFQNs field = Inr (paths, printed)"
    for classFQNs paths printed
  proof -
    from mem have cne: "classFQNs \<noteq> []" by auto
    from res ne cne obtain raw where
      r: "resolveEach field inclusions classFQNs ([], []) = Inr (raw, printed)"
      and p: "paths = rev (sort raw)"
      by (auto simp: getMatchingSWCs_def split: sum.splits prod.splits)
    note R = resolveEach_result [OF r]
    have sp: "set paths = set raw" using p by simp
    have w: "CollisionWarning fqn (p # q # rest) \<in> set printed"
      using R mem m a by force
    have f: "p \<noteq> [] \<longrightarrow> p \<in> set paths"
      using R mem m a sp by force
    have o: "\<exists>g\<in>set classFQNs. g \<noteq> fqn \<and> (\<exists>ms.
                       matchingSWCsOf field inclusions g = Inr ms
                       \<and> c \<in> set (fst (afterCollision g ms)))"
      if c: "c \<in> set paths" "c \<noteq> p" for c
    proof -
      from c sp R obtain g ms where g: "g \<in> set classFQNs"
        "matchingSWCsOf field inclusions g = Inr ms" "c \<in> set (fst (afterCollision g ms))"
        by auto
      have "g \<noteq> fqn"
      proof
        assume "g = fqn"
        with g m a have "c = p" by simp
        with c show False by simp
      qed
      with g show ?thesis by blast
    qed
    from w f o show ?thesis by blast
  qed
  from single multi show ?thesis by blast
qed

theorem getMatchingSWCs_collision_first_witness:
  "\<not> havePartialFqn ''a.B''
   \<and> map swcPath (filter (\<lambda>r. \<exists>cs. fieldOf SwcClassesField r = Some cs \<and> ''a.B'' \<in> set cs) twoLibs)
       = [''/ws/LibA/bin/liba.swc'', ''/ws/LibB/bin/libb.swc'']
   \<and> getMatchingSWCs twoLibs [''a.B''] SwcClassesField
       = Inr ([''/ws/LibA/bin/liba.swc''],
              [CollisionWarning ''a.B'' [''/ws/LibA/bin/liba.swc'', ''/ws/LibB/bin/libb.swc'']])"
proof -
  have h1: "\<not> havePartialFqn ''a.B''"
    by (simp add: havePartialFqn_def)
  have h2: "map swcPath (filter (\<lambda>r. \<exists>cs. fieldOf SwcClassesField r = Some cs \<and> ''a.B'' \<in> set cs) twoLibs)
       = ''/ws/LibA/bin/liba.swc'' # ''/ws/LibB/bin/libb.swc'' # []"
    by (simp add: twoLibs_def)
  from getMatchingSWCs_collision_first [OF h1 h2] h1 h2 show ?thesis
    by simp
qed

text \<open>
  C6 as the specification states it fails: with the classes \<^verbatim>\<open>a.B\<close> and \<^verbatim>\<open>a.D\<close>
  requested, the class \<^verbatim>\<open>a.B\<close> is provided by both archives, and the result holds both
  of them, not only the first.
\<close>

theorem collision_candidates_counterexample:
  "matchingSWCsOf SwcClassesField twoLibs ''a.B''
     = Inr [''/ws/LibA/bin/liba.swc'', ''/ws/LibB/bin/libb.swc'']
   \<and> getMatchingSWCs twoLibs [''a.B'', ''a.D''] SwcClassesField
     = Inr ([''/ws/LibB/bin/libb.swc'', ''/ws/LibA/bin/liba.swc''],
            [CollisionWarning ''a.B'' [''/ws/LibA/bin/liba.swc'', ''/ws/LibB/bin/libb.swc'']])"
  by code_simp

subsection \<open>The archive inspector\<close>

lemma readSwcClasses_catalog:
  "readSwcClasses demoEnv demoTree ''/ws/LibB/bin/libb.swc'' = Return [''com.b.Y'']"
  by code_simp

text \<open>
  C5 fails on the code. When the inspection command exits with code 0 and its output
  holds no \<^verbatim>\<open><def id="..." />\<close> element, \<^verbatim>\<open>stdout.match\<close> is \<^verbatim>\<open>null\<close> and
  \<^verbatim>\<open>readSwcClasses\<close> throws a TypeError instead of returning the empty list.
\<close>

theorem readSwcClasses_no_defs_raises:
  assumes "code (shellExecTar (fs E) s swcFile) = 0"
    and "swcDefScan (stdout (shellExecTar (fs E) s swcFile)) = []"
  shows "readSwcClasses E s swcFile = Throw TypeError"
  using assms by (simp add: readSwcClasses_def matchGlobalSwcDef_def Let_def)

theorem readSwcClasses_no_defs_raises_witness:
  "shellExecTar (fs demoEnv) demoTree ''/ws/LibA/bin/liba.swc'' = \<lparr>code = 0, stdout = ''<swc></swc>''\<rparr>
   \<and> readSwcClasses demoEnv demoTree ''/ws/LibA/bin/liba.swc'' = Throw TypeError"
proof -
  have r: "shellExecTar (fs demoEnv) demoTree ''/ws/LibA/bin/liba.swc''
           = \<lparr>code = 0, stdout = ''<swc></swc>''\<rparr>"
    by code_simp
  have a: "code (shellExecTar (fs demoEnv) demoTree ''/ws/LibA/bin/liba.swc'') = 0"
    by (simp add: r)
  have b: "swcDefScan (stdout (shellExecTar (fs demoEnv) demoTree ''/ws/LibA/bin/liba.swc'')) = []"
    unfolding r by code_simp
  from readSwcClasses_no_defs_raises [OF a b] r show ?thesis
    by simp
qed

subsection \<open>listFiles\<close>

lemma listFiles_directory_src:
  assumes "existsSync (fs E) s folder"
    and "statIsDirectory (fs E) s folder = Some True"
  shows "listFiles E fuel s folder filters useRelativePaths dropExtension
         = (if walkSync E s fuel folder = NoFuel then NoFuel else Return None)"
  using assms
  by (cases "walkSync E s fuel folder")
     (simp_all add: listFiles_def listFilesTry_def bindO_def Let_def)

text \<open>
  C2 fails on the code. For an existing directory \<^verbatim>\<open>listFiles\<close> never returns an array:
  whatever the filters and the transformations, once the walk of the directory has
  ended the caller receives \<^verbatim>\<open>undefined\<close>.
\<close>

theorem listFiles_directory_undefined:
  assumes "existsSync (fs E) s folder"
    and "statIsDirectory (fs E) s folder = Some True"
  shows "listFiles E fuel s folder filters useRelativePaths dropExtension
           = (if walkSync E s fuel folder = NoFuel then NoFuel else Return None)
         \<and> (\<forall>paths. listFiles E fuel s folder filters useRelativePaths dropExtension
                      \<noteq> Return (Some paths))"
  using listFiles_directory_src [OF assms, of fuel filters useRelativePaths dropExtension]
  by simp

theorem listFiles_directory_undefined_witness:
  "existsSync (fs demoEnv) demoTree ''/ws/LibA''
   \<and> statIsDirectory (fs demoEnv) demoTree ''/ws/LibA'' = Some True
   \<and> walkSync demoEnv demoTree 5 ''/ws/LibA''
       = Return [''/ws/LibA/src'', ''/ws/LibA/src/X.as'', ''/ws/LibA/bin'', ''/ws/LibA/bin/liba.swc'']
   \<and> listFiles demoEnv 5 demoTree ''/ws/LibA'' [] False False = Return None"
proof -
  have e: "existsSync (fs demoEnv) demoTree ''/ws/LibA''"
    by code_simp
  have d: "statIsDirectory (fs demoEnv) demoTree ''/ws/LibA'' = Some True"
    by code_simp
  have w: "walkSync demoEnv demoTree 5 ''/ws/LibA''
       = Return [''/ws/LibA/src'', ''/ws/LibA/src/X.as'', ''/ws/LibA/bin'', ''/ws/LibA/bin/liba.swc'']"
    by code_simp
  from listFiles_directory_undefined [OF e d, of 5 "[]" False False] e d w show ?thesis
    by simp
qed

subsection \<open>The index cache\<close>

text \<open>
  C3. When the cache file of the workspace exists and its trimmed content parses
  (\<^verbatim>\<open>JSON.parse\<close> throws on the empty string, so the text is not empty), then
  \<^verbatim>\<open>getInclusionsMap\<close> returns the parsed content as it is. The file system is left as
  it was, nothing but the note about the reused cache is printed, and the result does
  not depend on the listing function: no directory is read.
\<close>

theorem getInclusionsMap_cache_hit:
  assumes "existsSync (fs E) (fsState w) (pathResolve (path E) [searchPath, inclusionsFileName])"
    and "readFileSync (fs E) (fsState w) (pathResolve (path E) [searchPath, inclusionsFileName])
           = Some raw"
    and "jsTrim raw \<noteq> []"
    and "jsonParse (sys E) (jsTrim raw) = Some parsed"
  shows "getInclusionsMap lf E searchPath silentMode w
         = (Return parsed,
            if silentMode then w
            else w\<lparr>events := events w @ [Print (ReusedCacheInfo
                      (pathResolve (path E) [searchPath, inclusionsFileName]))]\<rparr>)"
  using assms
  by (simp add: getInclusionsMap_def Let_def bindW_def printIf_def emit_def returnW_def)

theorem getInclusionsMap_cache_hit_witness:
  "existsSync (fs demoEnv) (fsState demoWorld) (pathResolve (path demoEnv) [''/ws'', inclusionsFileName])
   \<and> readFileSync (fs demoEnv) (fsState demoWorld) (pathResolve (path demoEnv) [''/ws'', inclusionsFileName])
       = Some ''[liba, libb]''
   \<and> jsTrim ''[liba, libb]'' \<noteq> []
   \<and> jsonParse (sys demoEnv) (jsTrim ''[liba, libb]'') = Some demoIndex
   \<and> getInclusionsMap (listFiles demoEnv 5) demoEnv ''/ws'' True demoWorld = (Return demoIndex, demoWorld)"
proof -
  have h1: "existsSync (fs demoEnv) (fsState demoWorld)
              (pathResolve (path demoEnv) [''/ws'', inclusionsFileName])"
    by code_simp
  have h2: "readFileSync (fs demoEnv) (fsState demoWorld)
              (pathResolve (path demoEnv) [''/ws'', inclusionsFileName]) = Some ''[liba, libb]''"
    by code_simp
  have h3: "jsTrim ''[liba, libb]'' \<noteq> []"
    by code_simp
  have h4: "jsonParse (sys demoEnv) (jsTrim ''[liba, libb]'') = Some demoIndex"
    by code_simp
  from getInclusionsMap_cache_hit [OF h1 h2 h3 h4, of "listFiles demoEnv 5" True] h1 h2 h3 h4
  show ?thesis by simp
qed

text \<open>
  C4 fails on the code for a cache file that is empty or holds white space only: the
  trimmed text is falsy, so it is never parsed and \<^verbatim>\<open>cacheCorrupted\<close> stays false, while
  \<^verbatim>\<open>cacheExists\<close> is true. \<^verbatim>\<open>getInclusionsMap\<close> then returns the empty index without
  scanning any project and without writing the cache.
\<close>

theorem getInclusionsMap_blank_cache:
  assumes "existsSync (fs E) (fsState w) (pathResolve (path E) [searchPath, inclusionsFileName])"
    and "readFileSync (fs E) (fsState w) (pathResolve (path E) [searchPath, inclusionsFileName])
           = Some raw"
    and "jsTrim raw = []"
  shows "getInclusionsMap lf E searchPath silentMode w = (Return [], w)"
  using assms by (simp add: getInclusionsMap_def Let_def)

theorem getInclusionsMap_blank_cache_witness:
  "existsSync (fs demoEnv) (fsState blankCacheWorld)
     (pathResolve (path demoEnv) [''/ws'', inclusionsFileName])
   \<and> readFileSync (fs demoEnv) (fsState blankCacheWorld)
       (pathResolve (path demoEnv) [''/ws'', inclusionsFileName]) = Some [CHR 0x20, CHR 0x0A]
   \<and> jsTrim [CHR 0x20, CHR 0x0A] = []
   \<and> getInclusionsMap (listFiles demoEnv 5) demoEnv ''/ws'' False blankCacheWorld
       = (Return [], blankCacheWorld)"
proof -
  have h1: "existsSync (fs demoEnv) (fsState blankCacheWorld)
              (pathResolve (path demoEnv) [''/ws'', inclusionsFileName])"
    by code_simp
  have h2: "readFileSync (fs demoEnv) (fsState blankCacheWorld)
              (pathResolve (path demoEnv) [''/ws'', inclusionsFileName]) = Some [CHR 0x20, CHR 0x0A]"
    by code_simp
  have h3: "jsTrim [CHR 0x20, CHR 0x0A] = []"
    by code_simp
  from getInclusionsMap_blank_cache [OF h1 h2 h3, of "listFiles demoEnv 5" False] h1 h2 h3
  show ?thesis by simp
qed

subsection \<open>What the missing return of listFiles does to its callers\<close>

lemma getSrcFolderOf_listFiles:
  assumes "existsSync (fs E) (fsState w) p"
    and "statIsDirectory (fs E) (fsState w) p = Some True"
    and "walkSync E (fsState w) k p \<noteq> NoFuel"
  shows "getSrcFolderOf (listFiles E k) E p bypassWarning w = (Throw TypeError, w)"
  using assms
  by (simp add: getSrcFolderOf_def listFiles_directory_src bindW_def readW_def defined_def)

text \<open>
  With \<^verbatim>\<open>listFiles\<close> as it is, the rebuild of the index throws as well: a cache whose
  text is not empty and does not parse leads to \<^verbatim>\<open>listFolders(searchPath).length\<close> on
  \<^verbatim>\<open>undefined\<close>.
\<close>

lemma getInclusionsMap_corrupt_cache_listFiles:
  assumes "existsSync (fs E) (fsState w) (pathResolve (path E) [searchPath, inclusionsFileName])"
    and "readFileSync (fs E) (fsState w) (pathResolve (path E) [searchPath, inclusionsFileName])
           = Some raw"
    and "jsTrim raw \<noteq> []"
    and "jsonParse (sys E) (jsTrim raw) = None"
    and "existsSync (fs E) (fsState w) searchPath"
    and "statIsDirectory (fs E) (fsState w) searchPath = Some True"
    and "walkSync E (fsState w) k searchPath \<noteq> NoFuel"
  shows "getInclusionsMap (listFiles E k) E searchPath True w = (Throw TypeError, w)"
  using assms
  by (simp add: getInclusionsMap_def Let_def rebuildInclusions_def listFolders_def
        listFiles_directory_src bindW_def readW_def defined_def printIf_def returnW_def)

text \<open>
  C7 fails on the code. For a project folder that is an existing directory,
  \<^verbatim>\<open>getSrcFolderOf\<close> calls \<^verbatim>\<open>.filter\<close> on the \<^verbatim>\<open>undefined\<close> that \<^verbatim>\<open>listFiles\<close> returns,
  and \<^verbatim>\<open>mustBuildProject\<close> throws a TypeError before it compares any modification
  time: it returns neither true nor false.
\<close>

theorem mustBuildProject_raises_on_directory:
  assumes "projectFolderPath \<noteq> []"
    and "existsSync (fs E) (fsState w) projectFolderPath"
    and "statIsDirectory (fs E) (fsState w) projectFolderPath = Some True"
    and "walkSync E (fsState w) k projectFolderPath \<noteq> NoFuel"
  shows "mustBuildProject (listFiles E k) E (Suc n) projectFolderPath w = (Throw TypeError, w)"
  using assms by (simp add: getSrcFolderOf_listFiles bindW_def)

theorem mustBuildProject_raises_on_directory_witness:
  "''/ws/LibB'' \<noteq> []
   \<and> existsSync (fs demoEnv) (fsState demoWorld) ''/ws/LibB''
   \<and> statIsDirectory (fs demoEnv) (fsState demoWorld) ''/ws/LibB'' = Some True
   \<and> walkSync demoEnv (fsState demoWorld) 5 ''/ws/LibB'' \<noteq> NoFuel
   \<and> statMtime (fs demoEnv) (fsState demoWorld) ''/ws/LibB/src/Y.as'' = Some 3
   \<and> statMtime (fs demoEnv) (fsState demoWorld) ''/ws/LibB/bin/libb.swc'' = Some 4
   \<and> mustBuildProject (listFiles demoEnv 5) demoEnv (Suc 2) ''/ws/LibB'' demoWorld
       = (Throw TypeError, demoWorld)"
proof -
  have m1: "statMtime (fs demoEnv) (fsState demoWorld) ''/ws/LibB/src/Y.as'' = Some 3"
    by code_simp
  have m2: "statMtime (fs demoEnv) (fsState demoWorld) ''/ws/LibB/bin/libb.swc'' = Some 4"
    by code_simp
  have h1: "''/ws/LibB'' \<noteq> []"
    by simp
  have h2: "existsSync (fs demoEnv) (fsState demoWorld) ''/ws/LibB''"
    by code_simp
  have h3: "statIsDirectory (fs demoEnv) (fsState demoWorld) ''/ws/LibB'' = Some True"
    by code_simp
  have h4: "walkSync demoEnv (fsState demoWorld) 5 ''/ws/LibB'' \<noteq> NoFuel"
    by code_simp
  from mustBuildProject_raises_on_directory [OF h1 h2 h3 h4, of 2] h2 h3 h4 m1 m2
  show ?thesis by simp
qed

text \<open>
  C10 fails on the code for the same reason. For a project folder that is an existing
  directory, with or without a source folder below it, \<^verbatim>\<open>deleteCache\<close> throws a TypeError
  in \<^verbatim>\<open>getSrcFolderOf\<close> and leaves the world as it was: no binary is deleted, and the
  index cache of the workspace is not deleted either.
\<close>

theorem deleteCache_raises_on_directory:
  assumes "projectFolderPath \<noteq> []"
    and "existsSync (fs E) (fsState w) projectFolderPath"
    and "statIsDirectory (fs E) (fsState w) projectFolderPath = Some True"
    and "walkSync E (fsState w) k projectFolderPath \<noteq> NoFuel"
  shows "deleteCache (listFiles E k) E (Suc n) projectFolderPath keepInclusionsFile w
         = (Throw TypeError, w)"
  using assms by (simp add: getSrcFolderOf_listFiles bindW_def Let_def)

theorem deleteCache_raises_on_directory_witness:
  "''/ws/Docs'' \<noteq> []
   \<and> existsSync (fs demoEnv) (fsState demoWorld) ''/ws/Docs''
   \<and> statIsDirectory (fs demoEnv) (fsState demoWorld) ''/ws/Docs'' = Some True
   \<and> walkSync demoEnv (fsState demoWorld) 5 ''/ws/Docs'' = Return [''/ws/Docs/readme.txt'']
   \<and> existsSync (fs demoEnv) (fsState demoWorld) ''/ws/sirius.inclusions.cache''
   \<and> deleteCache (listFiles demoEnv 5) demoEnv (Suc 2) ''/ws/Docs'' False demoWorld
       = (Throw TypeError, demoWorld)"
proof -
  have h1: "''/ws/Docs'' \<noteq> []"
    by simp
  have h2: "existsSync (fs demoEnv) (fsState demoWorld) ''/ws/Docs''"
    by code_simp
  have h3: "statIsDirectory (fs demoEnv) (fsState demoWorld) ''/ws/Docs'' = Some True"
    by code_simp
  have w: "walkSync demoEnv (fsState demoWorld) 5 ''/ws/Docs'' = Return [''/ws/Docs/readme.txt'']"
    by code_simp
  have h4: "walkSync demoEnv (fsState demoWorld) 5 ''/ws/Docs'' \<noteq> NoFuel"
    by (simp add: w)
  have c: "existsSync (fs demoEnv) (fsState demoWorld) ''/ws/sirius.inclusions.cache''"
    by code_simp
  from deleteCache_raises_on_directory [OF h1 h2 h3 h4, of 2 False] h2 h3 w c
  show ?thesis by simp
qed

subsection \<open>The callers under a listing that returns arrays\<close>

text \<open>
  What \<^verbatim>\<open>mustBuildProject\<close> and \<^verbatim>\<open>deleteCache\<close> do once the listing returns an array. The
  comparison of modification times runs over the paths that the listing returns for the
  filter \<^verbatim>\<open>*.*\<close>.
\<close>

lemma anyNewer_iff:
  assumes "\<forall>f\<in>set srcFiles. statMtime (fs E) s f \<noteq> None"
  shows "anyNewer E s t srcFiles
         = Return (\<exists>f\<in>set srcFiles. \<exists>m. statMtime (fs E) s f = Some m \<and> t < m)"
  using assms
  by (induction srcFiles) (auto simp: bindO_def orThrow_def)

lemma projectItselfStale_listed:
  assumes "expectedBinaryPath lf E s projectFolderPath sourceFolder binFolder = Return binary"
    and "binary \<noteq> []"
    and "existsSync (fs E) s binary"
    and "statMtime (fs E) s binary = Some t"
    and "lf s sourceFolder allFilesType False False = Return (Some srcFiles)"
    and "\<forall>f\<in>set srcFiles. statMtime (fs E) s f \<noteq> None"
  shows "projectItselfStale lf E s projectFolderPath sourceFolder binFolder
         = Return (\<exists>f\<in>set srcFiles. \<exists>m. statMtime (fs E) s f = Some m \<and> t < m)"
  using assms
  by (simp add: projectItselfStale_def bindO_def orThrow_def defined_def anyNewer_iff)

lemma deleteCache_no_source_folder:
  assumes "projectFolderPath \<noteq> []"
    and "existsSync (fs E) (fsState w) projectFolderPath"
    and "lf (fsState w) projectFolderPath allFoldersType False False = Return (Some listed)"
    and "\<forall>f\<in>set listed. pathBasename (path E) f \<noteq> sourceFolderPath"
  shows "deleteCache lf E (Suc n) projectFolderPath False w
         = deleteInclusionsFile E (fst (getWorkspacePaths E projectFolderPath)) w"
proof -
  have "filter (\<lambda>folderPath. pathBasename (path E) folderPath = sourceFolderPath) listed = []"
    using assms(4) by (simp add: filter_empty_conv)
  then have "getSrcFolderOf lf E projectFolderPath True w = (Return None, w)"
    using assms(2,3)
    by (simp add: getSrcFolderOf_def bindW_def readW_def defined_def printIf_def returnW_def)
  then show ?thesis
    using assms(1,2) by (simp add: bindW_def Let_def)
qed

subsection \<open>The self-reference guard\<close>











subsection \<open>The index cache is deleted once\<close>

lemma keeps_same [simp]: "keepsIndexCache w w"
  by (simp add: keepsIndexCache_def)

lemma keeps_trans:
  "keepsIndexCache w1 w \<Longrightarrow> keepsIndexCache w2 w1 \<Longrightarrow> keepsIndexCache w2 w"
  by (auto simp: keepsIndexCache_def)

lemma keeps_returnW [simp]: "keepsIndexCache (snd (returnW x w)) w"
  by (simp add: returnW_def)

lemma keeps_throwW [simp]: "keepsIndexCache (snd (throwW e w)) w"
  by (simp add: throwW_def)

lemma keeps_readW [simp]: "keepsIndexCache (snd (readW f w)) w"
  by (simp add: readW_def)

lemma keeps_bindW:
  assumes "keepsIndexCache (snd (m w)) w" and "\<And>x w1. keepsIndexCache (snd (f x w1)) w1"
  shows "keepsIndexCache (snd (bindW m f w)) w"
proof (cases "m w")
  case (Pair r w1)
  with assms(1) have k: "keepsIndexCache w1 w" by simp
  show ?thesis
  proof (cases r)
    case (Return x)
    with Pair have "bindW m f w = f x w1" by (simp add: bindW_def)
    with keeps_trans [OF k assms(2)] show ?thesis by simp
  next
    case (Throw e)
    with Pair k show ?thesis by (simp add: bindW_def)
  next
    case NoFuel
    with Pair k show ?thesis by (simp add: bindW_def)
  qed
qed

lemma keeps_emit_Print [simp]: "keepsIndexCache (snd (emit (Print m) w)) w"
  by (simp add: emit_def keepsIndexCache_def)

lemma keeps_printIf [simp]: "keepsIndexCache (snd (printIf b m w)) w"
  by (simp add: printIf_def)

lemma keeps_emitAll_Print [simp]: "keepsIndexCache (snd (emitAll (map Print ms) w)) w"
  by (induction ms arbitrary: w) (auto intro!: keeps_bindW)

lemma keeps_getSrcFolderOf [simp]: "keepsIndexCache (snd (getSrcFolderOf lf E p b w)) w"
  by (auto simp: getSrcFolderOf_def Let_def intro!: keeps_bindW)

lemma keeps_indexSources [simp]:
  "keepsIndexCache (snd (indexSources lf E silent dirPath inclusions w)) w"
  by (auto simp: indexSources_def Let_def intro!: keeps_bindW split: option.splits)

lemma keeps_indexWorkspaceDirs [simp]:
  "keepsIndexCache (snd (indexWorkspaceDirs lf E silent dirs inclusions w)) w"
  by (induction dirs arbitrary: inclusions w) (auto intro!: keeps_bindW)

lemma keeps_writeIndexCache [simp]:
  "keepsIndexCache (snd (writeIndexCache E f inclusions w)) w"
  by (auto simp: writeIndexCache_def keepsIndexCache_def split: option.splits)

lemma keeps_rebuildInclusions [simp]:
  "keepsIndexCache (snd (rebuildInclusions lf E searchPath silent f w)) w"
  by (auto simp: rebuildInclusions_def intro!: keeps_bindW)

lemma keeps_getInclusionsMap [simp]:
  "keepsIndexCache (snd (getInclusionsMap lf E searchPath silent w)) w"
  by (auto simp: getInclusionsMap_def Let_def intro!: keeps_bindW split: option.splits)

lemma keeps_resolveExternalSWCs [simp]:
  "keepsIndexCache (snd (resolveExternalSWCs lf E ws src w)) w"
  by (auto simp: resolveExternalSWCs_def intro!: keeps_bindW split: sum.splits)

lemma keeps_deleteBinary [simp]: "keepsIndexCache (snd (deleteBinary lf E p src w)) w"
  unfolding deleteBinary_def Let_def
proof (rule keeps_bindW)
  show "keepsIndexCache (snd (readW f w)) w" for f :: "'a \<Rightarrow> string outcome"
    by simp
  show "keepsIndexCache (snd (if x \<noteq> [] \<and> existsSync (fs E) (fsState w1) x
          then (Return (), w1\<lparr>fsState := deletePathNode E x (fsState w1),
                 events := events w1 @ [Print (DeletingBinaryInfo x), DeleteBinary x]\<rparr>)
          else (Return (), w1))) w1" for x w1
    by (simp add: keepsIndexCache_def)
qed

lemma keeps_deleteDeps:
  assumes "\<And>q w1. keepsIndexCache (snd (deleteCache lf E n q True w1)) w1"
  shows "keepsIndexCache (snd (deleteDeps lf E n p swcs w)) w"
  by (induction swcs arbitrary: w) (auto simp: Let_def assms intro!: keeps_bindW)

lemma keeps_deleteCache_nested: "keepsIndexCache (snd (deleteCache lf E n p True w)) w"
proof (induction n arbitrary: p w)
  case 0
  show ?case by simp
next
  case (Suc n)
  have d: "\<And>q swcs w1. keepsIndexCache (snd (deleteDeps lf E n q swcs w1)) w1"
    by (rule keeps_deleteDeps) (rule Suc.IH)
  show ?case
    by (auto simp: Let_def d intro!: keeps_bindW split: option.splits)
qed

lemma keeps_deleteDeps_all: "keepsIndexCache (snd (deleteDeps lf E n p swcs w)) w"
  by (rule keeps_deleteDeps) (rule keeps_deleteCache_nested)

lemma keeps_imp_last: "keepsIndexCache w' w \<Longrightarrow> indexCacheLast w' w"
  by (auto simp: keepsIndexCache_def indexCacheLast_def)

lemma last_after_keeps:
  assumes k: "keepsIndexCache w1 w" and l: "indexCacheLast w2 w1"
  shows "indexCacheLast w2 w"
proof -
  from k obtain new where n: "events w1 = events w @ new" "\<forall>c. DeleteIndexCache c \<notin> set new"
    by (auto simp: keepsIndexCache_def)
  from l obtain before where b: "\<forall>c. DeleteIndexCache c \<notin> set before"
    "events w2 = events w1 @ before \<or> (\<exists>c. events w2 = events w1 @ before @ [DeleteIndexCache c])"
    by (auto simp: indexCacheLast_def)
  have "\<forall>c. DeleteIndexCache c \<notin> set (new @ before)"
    using n b by auto
  moreover have "events w2 = events w @ (new @ before)
     \<or> (\<exists>c. events w2 = events w @ (new @ before) @ [DeleteIndexCache c])"
    using n b by auto
  ultimately show ?thesis
    unfolding indexCacheLast_def by blast
qed

lemma last_bindW:
  assumes "keepsIndexCache (snd (m w)) w" and "\<And>x w1. indexCacheLast (snd (f x w1)) w1"
  shows "indexCacheLast (snd (bindW m f w)) w"
proof (cases "m w")
  case (Pair r w1)
  with assms(1) have k: "keepsIndexCache w1 w" by simp
  show ?thesis
  proof (cases r)
    case (Return x)
    with Pair have "bindW m f w = f x w1" by (simp add: bindW_def)
    with last_after_keeps [OF k assms(2)] show ?thesis by simp
  next
    case (Throw e)
    with Pair keeps_imp_last [OF k] show ?thesis by (simp add: bindW_def)
  next
    case NoFuel
    with Pair keeps_imp_last [OF k] show ?thesis by (simp add: bindW_def)
  qed
qed

lemma last_deleteInclusionsFile: "indexCacheLast (snd (deleteInclusionsFile E ws w)) w"
proof -
  let ?f = "pathResolve (path E) [ws, inclusionsFileName]"
  show ?thesis
  proof (cases "existsSync (fs E) (fsState w) ?f")
    case True
    then have "events (snd (deleteInclusionsFile E ws w))
               = events w @ [Print (DeletingCacheInfo ?f)] @ [DeleteIndexCache ?f]"
      by (simp add: deleteInclusionsFile_def Let_def)
    then show ?thesis
      unfolding indexCacheLast_def
      by (intro exI [of _ "[Print (DeletingCacheInfo ?f)]"]) auto
  next
    case False
    then show ?thesis
      by (simp add: deleteInclusionsFile_def Let_def indexCacheLast_def)
  qed
qed

lemma last_deleteCache_top: "indexCacheLast (snd (deleteCache lf E n p False w)) w"
proof (cases n)
  case 0
  then show ?thesis by (simp add: indexCacheLast_def)
next
  case (Suc m)
  show ?thesis
  proof (cases "p \<noteq> [] \<and> existsSync (fs E) (fsState w) p")
    case False
    with Suc show ?thesis by (auto simp: indexCacheLast_def)
  next
    case True
    have inner: "keepsIndexCache (snd ((case found of
                              None \<Rightarrow> (Return (), w1)
                            | Some sourceFolder \<Rightarrow>
                                if sourceFolder \<noteq> [] \<and> existsSync (fs E) (fsState w1) sourceFolder then
                                  bindW (resolveExternalSWCs lf E ws sourceFolder)
                                    (\<lambda>externalSWCs.
                                       bindW (deleteDeps lf E m p externalSWCs)
                                         (\<lambda>_. deleteBinary lf E p sourceFolder)) w1
                                else (Return (), w1)))) w1" for found w1 ws
      by (auto simp: keeps_deleteDeps_all intro!: keeps_bindW split: option.splits)
    show ?thesis
      using True Suc
      by (auto simp: Let_def inner last_deleteInclusionsFile intro!: last_bindW)
  qed
qed

lemma indexCacheDeletions_none:
  "(\<forall>c. DeleteIndexCache c \<notin> set evs) \<longleftrightarrow> indexCacheDeletions evs = []"
  by (induction evs rule: indexCacheDeletions.induct) auto

text \<open>
  C9. Every recursive call of \<^verbatim>\<open>deleteCache\<close> is made by the loop over the resolved
  archives, with \<^verbatim>\<open>keepInclusionsFile = true\<close>. A call with \<^verbatim>\<open>true\<close>, and so the whole
  loop, only appends events, none of which deletes the index cache. A call with
  \<^verbatim>\<open>false\<close> appends events with at most one deletion of the index cache, and that one
  is the last event of the call. This holds for every listing function, every
  platform and any fuel.
\<close>

theorem deleteCache_index_cache_once:
  "(\<exists>new. events (snd (deleteCache lf E n p True w)) = events w @ new
           \<and> indexCacheDeletions new = [])
   \<and> (\<exists>new. events (snd (deleteDeps lf E n p swcs w)) = events w @ new
           \<and> indexCacheDeletions new = [])
   \<and> (\<exists>before. indexCacheDeletions before = []
         \<and> (events (snd (deleteCache lf E n p False w)) = events w @ before
              \<or> (\<exists>c. events (snd (deleteCache lf E n p False w))
                       = events w @ before @ [DeleteIndexCache c])))"
  using keeps_deleteCache_nested [of lf E n p w] keeps_deleteDeps_all [of lf E n p swcs w]
    last_deleteCache_top [of lf E n p w]
  unfolding keepsIndexCache_def indexCacheLast_def indexCacheDeletions_none
  by blast

theorem deleteCache_index_cache_once_witness:
  "deleteCache (listFiles demoEnv 5) demoEnv 3 ''/ws/notes.txt'' False notesWorld
     = (Return (),
        \<lparr>fsState = filter (\<lambda>e. fst e \<noteq> ''/ws/sirius.inclusions.cache'') (fsState notesWorld),
         events = [Print (DeletingCacheInfo ''/ws/sirius.inclusions.cache''),
                   DeleteIndexCache ''/ws/sirius.inclusions.cache'']\<rparr>)
   \<and> deleteCache (listFiles demoEnv 5) demoEnv 3 ''/ws/notes.txt'' True notesWorld
     = (Return (), notesWorld)
   \<and> deleteCache (listFiles demoEnv 5) demoEnv 3 ''/ws/App1'' False notesWorld
     = (Throw TypeError, notesWorld)
   \<and> (\<exists>before. indexCacheDeletions before = []
         \<and> (events (snd (deleteCache (listFiles demoEnv 5) demoEnv 3 ''/ws/notes.txt'' False notesWorld))
               = events notesWorld @ before
              \<or> (\<exists>c. events (snd (deleteCache (listFiles demoEnv 5) demoEnv 3 ''/ws/notes.txt'' False
                                     notesWorld))
                       = events notesWorld @ before @ [DeleteIndexCache c])))"
proof -
  have run: "deleteCache (listFiles demoEnv 5) demoEnv 3 ''/ws/notes.txt'' False notesWorld
     = (Return (),
        \<lparr>fsState = filter (\<lambda>e. fst e \<noteq> ''/ws/sirius.inclusions.cache'') (fsState notesWorld),
         events = [Print (DeletingCacheInfo ''/ws/sirius.inclusions.cache''),
                   DeleteIndexCache ''/ws/sirius.inclusions.cache'']\<rparr>)"
    by code_simp
  have kept: "deleteCache (listFiles demoEnv 5) demoEnv 3 ''/ws/notes.txt'' True notesWorld
     = (Return (), notesWorld)"
    by code_simp
  have dir: "deleteCache (listFiles demoEnv 5) demoEnv 3 ''/ws/App1'' False notesWorld
     = (Throw TypeError, notesWorld)"
    by code_simp
  from deleteCache_index_cache_once
         [of "listFiles demoEnv 5" demoEnv 3 "''/ws/notes.txt''" notesWorld "[]"]
  have "\<exists>before. indexCacheDeletions before = []
         \<and> (events (snd (deleteCache (listFiles demoEnv 5) demoEnv 3 ''/ws/notes.txt'' False notesWorld))
               = events notesWorld @ before
              \<or> (\<exists>c. events (snd (deleteCache (listFiles demoEnv 5) demoEnv 3 ''/ws/notes.txt'' False
                                     notesWorld))
                       = events notesWorld @ before @ [DeleteIndexCache c]))"
    by blast
  with run kept dir show ?thesis by blast
qed

end
